theory Spec2Isabelle
  imports
    Complex_Main
    "HOL-Library.AList"
    "HOL-Library.Char_ord"
    "HOL-Library.List_Lexorder"
    "HOL-Library.Option_ord"
    "HOL-Library.Product_Lexorder"
    "HOL-Library.Multiset"
begin

section \<open>food-lover-server: the review and favorite routes of index.js\<close>

text \<open>
  The service is request-handling glue over two MongoDB collections. Each route of
  \<^verbatim>\<open>src/index.js\<close> becomes one function from the request (and, for a write, the
  collections) to the response (and the new collections). The promise chains of the
  handlers run to completion one request at a time; a rejected promise is the
  \<open>Inl\<close> branch of a sum and reaches the handler's \<^verbatim>\<open>.catch\<close>, which answers 500.

  Scope of the value model. Request bodies are JSON objects whose field values are JSON
  scalars (null, booleans, numbers, strings); arrays and nested objects in a body, and
  embedded documents in the storage, are outside the model, so an update through a field
  path (a name with a dot) is not covered: see \<open>updateOne\<close>. Strings are lists of
  8-bit code units and letter case is ASCII case.
  A storage call fails only for the reasons the data can cause (an identifier that does
  not parse, a pattern that does not compile, a duplicate or modified \<^verbatim>\<open>_id\<close>); a
  lost connection is not modelled.
\<close>

subsection \<open>Values\<close>

text \<open>
  A JavaScript number is NaN or a finite value (every finite double is a rational).
  The value \<^verbatim>\<open>undefined\<close> is the absence of a field: \<open>None\<close>.
\<close>

datatype jsnum = NaN | Fin rat

datatype json = JNull | JBool bool | JNum jsnum | JStr string

text \<open>
  An ObjectId is kept as its 24 lower-case hexadecimal digits. A stored value is a JSON
  scalar, a Date (milliseconds since the epoch) or an ObjectId.
\<close>

type_synonym oid = string

datatype bson = Scalar json | Date int | ObjectId oid

type_synonym body = "(string \<times> json) list"
type_synonym doc = "(string \<times> bson) list"
type_synonym collection = "doc list"

record db =
  reviewCollection :: collection
  favoritesCollection :: collection

definition bson_of :: "body \<Rightarrow> doc" where
  "bson_of b = map (\<lambda>(k, v). (k, Scalar v)) b"

subsection \<open>Libraries the handlers call\<close>

text \<open>
  Three library functions are taken as parameters, since their full definitions are
  outside this repository: validator.js's \<^verbatim>\<open>isEmail\<close>, ECMAScript's conversion of a
  string to a number, and the storage's regular expression engine with option
  \<^verbatim>\<open>i\<close> (\<open>None\<close> for a pattern that does not compile, else the search predicate on
  the subject string).
\<close>

record libs =
  isEmail :: "string \<Rightarrow> bool"
  StringToNumber :: "string \<Rightarrow> jsnum"
  regex_i :: "string \<Rightarrow> (string \<Rightarrow> bool) option"

text \<open>
  \<^verbatim>\<open>Number(v)\<close>: undefined is NaN, null is 0, a boolean is 0 or 1, a number is itself, a
  string is parsed, a Date is its time value, and an ObjectId converts through its
  \<^verbatim>\<open>toString()\<close>, the hexadecimal string.
\<close>

fun Number :: "libs \<Rightarrow> bson option \<Rightarrow> jsnum" where
  "Number L None = NaN"
| "Number L (Some (Scalar JNull)) = Fin 0"
| "Number L (Some (Scalar (JBool b))) = Fin (if b then 1 else 0)"
| "Number L (Some (Scalar (JNum n))) = n"
| "Number L (Some (Scalar (JStr s))) = StringToNumber L s"
| "Number L (Some (Date t)) = Fin (of_int t)"
| "Number L (Some (ObjectId h)) = StringToNumber L h"

text \<open>\<^verbatim>\<open>{ ...r, rating: Number(r.rating) }\<close>\<close>

definition with_numeric_rating :: "libs \<Rightarrow> doc \<Rightarrow> doc" where
  "with_numeric_rating L r =
     AList.update ''rating'' (Scalar (JNum (Number L (map_of r ''rating'')))) r"

subsection \<open>ObjectId\<close>

definition is_hex :: "char \<Rightarrow> bool" where
  "is_hex c = (c \<in> set ''0123456789abcdefABCDEF'')"

text \<open>ASCII lower case, as a table.\<close>

definition lower :: "char \<Rightarrow> char" where
  "lower c =
     (case map_of (zip ''ABCDEFGHIJKLMNOPQRSTUVWXYZ'' ''abcdefghijklmnopqrstuvwxyz'') c of
        Some l \<Rightarrow> l
      | None \<Rightarrow> c)"

text \<open>
  \<^verbatim>\<open>new ObjectId(s)\<close> for a string: 24 hexadecimal digits, in either case, or the
  constructor throws.
\<close>

definition ObjectId_of_string :: "string \<Rightarrow> oid option" where
  "ObjectId_of_string s =
     (if length s = 24 \<and> list_all is_hex s then Some (map lower s) else None)"

subsection \<open>The storage: comparison order, queries, writes\<close>

text \<open>
  MongoDB sorts values of different types by type first (null and missing fields, then
  numbers, strings, ObjectIds, booleans, dates), then within the type: numbers by value
  with NaN lowest, strings and ObjectIds by their bytes, false before true, dates by time.
  \<open>bson_key\<close> maps a field to a key whose lexicographic order is that order.
\<close>

type_synonym sort_key = "nat \<times> rat option \<times> string"

fun bson_key :: "bson option \<Rightarrow> sort_key" where
  "bson_key None = (1, None, [])"
| "bson_key (Some (Scalar JNull)) = (1, None, [])"
| "bson_key (Some (Scalar (JNum NaN))) = (2, None, [])"
| "bson_key (Some (Scalar (JNum (Fin q)))) = (2, Some q, [])"
| "bson_key (Some (Scalar (JStr s))) = (3, None, s)"
| "bson_key (Some (ObjectId h)) = (7, None, h)"
| "bson_key (Some (Scalar (JBool b))) = (8, Some (if b then 1 else 0), [])"
| "bson_key (Some (Date t)) = (9, Some (of_int t), [])"

text \<open>
  \<^verbatim>\<open>.sort({ f: -1 })\<close>: descending in the comparison order. The order among documents
  with equal keys is the storage's choice; the model takes one, and no theorem below
  depends on which.
\<close>

definition sort_desc :: "string \<Rightarrow> collection \<Rightarrow> doc list" where
  "sort_desc f ds = rev (sort_key (\<lambda>d. bson_key (map_of d f)) ds)"

text \<open>
  A query document is a list of conditions: \<^verbatim>\<open>{ k: v }\<close> on a scalar, and
  \<^verbatim>\<open>{ k: { $regex: p, $options: "i" } }\<close>. An equality condition holds when the field
  has that value; a condition on null also holds for a document without the field. A
  regular expression holds only for a string field that the compiled pattern matches.
\<close>

datatype cond = Eq string bson | Regex string string

type_synonym query = "cond list"

definition field_is :: "string \<Rightarrow> bson \<Rightarrow> doc \<Rightarrow> bool" where
  "field_is k v d = (case map_of d k of None \<Rightarrow> v = Scalar JNull | Some w \<Rightarrow> w = v)"

definition field_matches :: "string \<Rightarrow> (string \<Rightarrow> bool) \<Rightarrow> doc \<Rightarrow> bool" where
  "field_matches k m d = (case map_of d k of Some (Scalar (JStr s)) \<Rightarrow> m s | _ \<Rightarrow> False)"

fun compiles :: "libs \<Rightarrow> cond \<Rightarrow> bool" where
  "compiles L (Eq k v) = True"
| "compiles L (Regex k p) = (regex_i L p \<noteq> None)"

fun holds :: "libs \<Rightarrow> cond \<Rightarrow> doc \<Rightarrow> bool" where
  "holds L (Eq k v) d = field_is k v d"
| "holds L (Regex k p) d = (case regex_i L p of None \<Rightarrow> False | Some m \<Rightarrow> field_matches k m d)"

definition matches :: "libs \<Rightarrow> query \<Rightarrow> doc \<Rightarrow> bool" where
  "matches L q d = list_all (\<lambda>c. holds L c d) q"

datatype storage_error = DuplicateKey | ImmutableField | BadRegex | BadObjectId | BadFieldName

text \<open>
  \<^verbatim>\<open>find(q).toArray()\<close> in storage order, rejected when a pattern of the query does not
  compile; \<^verbatim>\<open>findOne(q)\<close> is the first match or null.
\<close>

definition find :: "libs \<Rightarrow> query \<Rightarrow> collection \<Rightarrow> storage_error + doc list" where
  "find L q c = (if list_all (compiles L) q then Inr (filter (matches L q) c) else Inl BadRegex)"

definition findOne :: "libs \<Rightarrow> query \<Rightarrow> collection \<Rightarrow> doc option" where
  "findOne L q c = List.find (matches L q) c"

text \<open>
  \<^verbatim>\<open>insertOne(d)\<close>: the driver gives the document the generated identifier \<open>nid\<close> when
  its \<^verbatim>\<open>_id\<close> is missing or null; the collection's unique index on \<^verbatim>\<open>_id\<close>
  rejects an identifier that is already stored. The result carries the inserted identifier.
\<close>

definition insertOne :: "oid \<Rightarrow> doc \<Rightarrow> collection \<Rightarrow> storage_error + (bson \<times> collection)" where
  "insertOne nid d c =
     (let i = (case map_of d ''_id'' of
                 None \<Rightarrow> ObjectId nid
               | Some v \<Rightarrow> if v = Scalar JNull then ObjectId nid else v);
          d' = AList.update ''_id'' i d
      in if list_ex (\<lambda>e. map_of e ''_id'' = Some i) c then Inl DuplicateKey
         else Inr (i, c @ [d']))"

text \<open>
  The names of a \<^verbatim>\<open>$set\<close> operand. The storage does not accept an empty name or a name
  that begins with a dollar sign. It reads a name with a dot as a path into an embedded
  document; every other name is the name of a top-level field.
\<close>

definition invalid_name :: "string \<Rightarrow> bool" where
  "invalid_name k = (case k of [] \<Rightarrow> True | c # t \<Rightarrow> c = CHR ''$'')"

definition path_name :: "string \<Rightarrow> bool" where
  "path_name k = (CHR ''.'' \<in> set k)"


text \<open>
  \<^verbatim>\<open>$set\<close> with top-level names only: every field of the operand is written over the
  document, in order. \<open>updateOne\<close> applies it to no other operand.
\<close>

definition set_fields :: "doc \<Rightarrow> doc \<Rightarrow> doc" where
  "set_fields u d = fold (\<lambda>(k, v). AList.update k v) u d"

text \<open>
  \<^verbatim>\<open>updateOne({ _id: i }, { $set: u })\<close>: the first document with that identifier is
  updated. An operand with an invalid name is an error. On the matched document, a path
  into a stored field is an error, since every stored value here is a scalar and has no
  fields; a path whose first name is not stored would create an embedded document, which
  this value model does not contain, so the model takes every path as an error and no
  property below speaks of an operand with a path. An operand that would change the
  \<^verbatim>\<open>_id\<close> is an error, and an empty operand changes nothing. The result is the
  matched count and the collection.
\<close>

fun updateOne :: "bson \<Rightarrow> doc \<Rightarrow> collection \<Rightarrow> storage_error + (nat \<times> collection)" where
  "updateOne i u [] =
     (if list_ex invalid_name (map fst u) then Inl BadFieldName else Inr (0, []))"
| "updateOne i u (d # ds) =
     (if field_is ''_id'' i d then
        (if list_ex invalid_name (map fst u) \<or> list_ex path_name (map fst u)
         then Inl BadFieldName
         else (case map_of u ''_id'' of
                 None \<Rightarrow> Inr (1, set_fields u d # ds)
               | Some v \<Rightarrow> if v = i then Inr (1, set_fields u d # ds) else Inl ImmutableField))
      else (case updateOne i u ds of
              Inl e \<Rightarrow> Inl e
            | Inr (n, ds') \<Rightarrow> Inr (n, d # ds')))"

text \<open>\<^verbatim>\<open>deleteOne({ _id: i })\<close>: the first document with that identifier is removed.\<close>

fun deleteOne :: "bson \<Rightarrow> collection \<Rightarrow> nat \<times> collection" where
  "deleteOne i [] = (0, [])"
| "deleteOne i (d # ds) =
     (if field_is ''_id'' i d then (1, ds)
      else (case deleteOne i ds of (n, ds') \<Rightarrow> (n, d # ds')))"

subsection \<open>The validation layer\<close>

text \<open>
  express-validator hands each validator the field's value as a string: undefined, null
  and NaN become the empty string, a boolean \<^verbatim>\<open>true\<close> or \<^verbatim>\<open>false\<close>, a number its
  decimal notation. \<^verbatim>\<open>notEmpty\<close> asks for a non-empty string; \<^verbatim>\<open>isInt\<close> for an
  optional sign and decimal digits whose value is within the bounds; \<^verbatim>\<open>isEmail\<close> is
  the library's test, and the notation of a boolean or a number has no \<^verbatim>\<open>@\<close>.
\<close>

definition is_digit :: "char \<Rightarrow> bool" where
  "is_digit c = (c \<in> set ''0123456789'')"

definition digit_value :: "char \<Rightarrow> int" where
  "digit_value c =
     (case map_of (zip ''0123456789'' [0, 1, 2, 3, 4, 5, 6, 7, 8, 9]) c of
        Some n \<Rightarrow> n
      | None \<Rightarrow> 0)"

definition digits_value :: "string \<Rightarrow> int" where
  "digits_value s = fold (\<lambda>c n. 10 * n + digit_value c) s 0"

fun int_literal :: "string \<Rightarrow> bool" where
  "int_literal [] = False"
| "int_literal (c # cs) =
     (if c = CHR ''+'' \<or> c = CHR ''-'' then cs \<noteq> [] \<and> list_all is_digit cs
      else list_all is_digit (c # cs))"

fun int_value :: "string \<Rightarrow> int" where
  "int_value [] = 0"
| "int_value (c # cs) =
     (if c = CHR ''-'' then - digits_value cs
      else if c = CHR ''+'' then digits_value cs
      else digits_value (c # cs))"

datatype validator = NotEmpty | IsInt int int | IsEmail

fun passes :: "libs \<Rightarrow> validator \<Rightarrow> json option \<Rightarrow> bool" where
  "passes L NotEmpty v =
     (case v of
        None \<Rightarrow> False
      | Some JNull \<Rightarrow> False
      | Some (JNum NaN) \<Rightarrow> False
      | Some (JStr s) \<Rightarrow> s \<noteq> []
      | Some _ \<Rightarrow> True)"
| "passes L (IsInt lo hi) v =
     (case v of
        Some (JNum (Fin q)) \<Rightarrow>
          q = of_int \<lfloor>q\<rfloor> \<and> \<bar>q\<bar> < 10 ^ 21 \<and> of_int lo \<le> q \<and> q \<le> of_int hi
      | Some (JStr s) \<Rightarrow> int_literal s \<and> lo \<le> int_value s \<and> int_value s \<le> hi
      | _ \<Rightarrow> False)"
| "passes L IsEmail v = (case v of Some (JStr s) \<Rightarrow> isEmail L s | _ \<Rightarrow> False)"

text \<open>
  A chain \<^verbatim>\<open>body(f)\<close>, with \<^verbatim>\<open>.optional()\<close> or not, and its validator. An optional
  chain is skipped when the field is undefined. A failed validator adds one entry with the
  field's path and the default message.
\<close>

record field_error =
  path :: string
  msg :: string

type_synonym chain = "string \<times> bool \<times> validator"

fun run_chain :: "libs \<Rightarrow> body \<Rightarrow> chain \<Rightarrow> field_error list" where
  "run_chain L b (f, opt, v) =
     (if opt \<and> map_of b f = None then []
      else if passes L v (map_of b f) then []
      else [\<lparr>path = f, msg = ''Invalid value''\<rparr>])"

definition validationResult :: "libs \<Rightarrow> chain list \<Rightarrow> body \<Rightarrow> field_error list" where
  "validationResult L cs b = concat (map (run_chain L b) cs)"

subsection \<open>Responses\<close>

text \<open>
  The body of a response is the value handed to \<^verbatim>\<open>res.json\<close>: the object
  \<^verbatim>\<open>{ reviews: [...] }\<close>, a bare array of documents, one document, \<^verbatim>\<open>{ message }\<close>,
  \<^verbatim>\<open>{ errors }\<close>, the insertion result \<^verbatim>\<open>{ acknowledged: true, insertedId }\<close>, or the
  array of favorites, each with its \<^verbatim>\<open>review\<close> (\<open>None\<close> is null). \<open>ErrorPage\<close> is
  the page of Express's own error handler, which answers an exception thrown outside a
  promise chain with status 500.
\<close>

datatype payload =
    Reviews "doc list"
  | Array "doc list"
  | Document doc
  | Message string
  | Errors "field_error list"
  | InsertResult bson
  | Populated "(doc \<times> doc option) list"
  | ErrorPage

record response =
  status :: nat
  payload :: payload

definition handleValidationErrors :: "libs \<Rightarrow> chain list \<Rightarrow> body \<Rightarrow> response option" where
  "handleValidationErrors L cs b =
     (let errors = validationResult L cs b
      in if errors \<noteq> [] then Some \<lparr>status = 400, payload = Errors errors\<rparr> else None)"

subsection \<open>The review routes\<close>

text \<open>
  \<^verbatim>\<open>String.prototype.trim\<close> removes white space at both ends: tab, line feed, vertical
  tab, form feed, carriage return, space and no-break space among the 8-bit code units.
\<close>

definition is_space :: "char \<Rightarrow> bool" where
  "is_space c = (c \<in> set [CHR 0x09, CHR 0x0A, CHR 0x0B, CHR 0x0C, CHR 0x0D, CHR 0x20, CHR 0xA0])"

definition trim :: "string \<Rightarrow> string" where
  "trim s = rev (dropWhile is_space (rev (dropWhile is_space s)))"

text \<open>
  \<^verbatim>\<open>GET /reviews\<close>. The query parameters are strings or absent; the empty string is
  falsy. The search text is handed to the storage as a regular expression.
\<close>

definition reviews_query :: "string option \<Rightarrow> string option \<Rightarrow> query" where
  "reviews_query userEmail search =
     (case userEmail of
        None \<Rightarrow> []
      | Some e \<Rightarrow> if e \<noteq> [] then [Eq ''userEmail'' (Scalar (JStr e))] else [])
     @
     (case search of
        None \<Rightarrow> []
      | Some p \<Rightarrow> if p \<noteq> [] \<and> trim p \<noteq> [] then [Regex ''foodName'' p] else [])"

definition GET_reviews :: "libs \<Rightarrow> db \<Rightarrow> string option \<Rightarrow> string option \<Rightarrow> response" where
  "GET_reviews L s userEmail search =
     (case find L (reviews_query userEmail search) (reviewCollection s) of
        Inl e \<Rightarrow> \<lparr>status = 500, payload = Message ''Failed to fetch reviews''\<rparr>
      | Inr reviews \<Rightarrow>
          \<lparr>status = 200,
           payload = Reviews (map (with_numeric_rating L) (sort_desc ''date'' reviews))\<rparr>)"

text \<open>\<^verbatim>\<open>GET /reviews/top\<close>: \<^verbatim>\<open>find().sort({ rating: -1 }).limit(6)\<close>.\<close>

definition GET_reviews_top :: "libs \<Rightarrow> db \<Rightarrow> response" where
  "GET_reviews_top L s =
     \<lparr>status = 200,
      payload = Array (map (with_numeric_rating L)
                  (take 6 (sort_desc ''rating'' (reviewCollection s))))\<rparr>"

text \<open>
  \<^verbatim>\<open>GET /reviews/:id\<close>. \<^verbatim>\<open>new ObjectId(req.params.id)\<close> is evaluated while the
  handler builds the query, before any promise exists, so its exception goes to Express's
  error handler.
\<close>

definition GET_reviews_id :: "libs \<Rightarrow> db \<Rightarrow> string \<Rightarrow> response" where
  "GET_reviews_id L s id' =
     (case ObjectId_of_string id' of
        None \<Rightarrow> \<lparr>status = 500, payload = ErrorPage\<rparr>
      | Some i \<Rightarrow>
          (case findOne L [Eq ''_id'' (ObjectId i)] (reviewCollection s) of
             None \<Rightarrow> \<lparr>status = 404, payload = Message ''Review not found''\<rparr>
           | Some review \<Rightarrow> \<lparr>status = 200, payload = Document (with_numeric_rating L review)\<rparr>))"

text \<open>
  \<^verbatim>\<open>POST /reviews\<close>: the chains, \<^verbatim>\<open>handleValidationErrors\<close>, then the handler with
  \<^verbatim>\<open>{ ...req.body, date: new Date() }\<close>. \<open>now\<close> is the server's clock and \<open>nid\<close> the
  identifier the driver generates.
\<close>

definition post_reviews_chains :: "chain list" where
  "post_reviews_chains =
     [(''foodName'', False, NotEmpty),
      (''foodImage'', False, NotEmpty),
      (''restaurantName'', False, NotEmpty),
      (''rating'', False, IsInt 0 5),
      (''userEmail'', False, IsEmail)]"

definition POST_reviews :: "libs \<Rightarrow> int \<Rightarrow> oid \<Rightarrow> db \<Rightarrow> body \<Rightarrow> response \<times> db" where
  "POST_reviews L now nid s b =
     (case handleValidationErrors L post_reviews_chains b of
        Some r \<Rightarrow> (r, s)
      | None \<Rightarrow>
          (let review = AList.update ''date'' (Date now) (bson_of b)
           in case insertOne nid review (reviewCollection s) of
                Inl e \<Rightarrow> (\<lparr>status = 500, payload = Message ''Failed to add review''\<rparr>, s)
              | Inr (i, c) \<Rightarrow>
                  (\<lparr>status = 201, payload = InsertResult i\<rparr>, s\<lparr>reviewCollection := c\<rparr>)))"

text \<open>\<^verbatim>\<open>PUT /reviews/:id\<close>: \<^verbatim>\<open>updateOne({ _id: new ObjectId(id) }, { $set: req.body })\<close>.\<close>

definition put_reviews_chains :: "chain list" where
  "put_reviews_chains =
     [(''foodName'', True, NotEmpty),
      (''foodImage'', True, NotEmpty),
      (''restaurantName'', True, NotEmpty),
      (''rating'', True, IsInt 0 5)]"

definition PUT_reviews_id :: "libs \<Rightarrow> db \<Rightarrow> string \<Rightarrow> body \<Rightarrow> response \<times> db" where
  "PUT_reviews_id L s id' b =
     (case handleValidationErrors L put_reviews_chains b of
        Some r \<Rightarrow> (r, s)
      | None \<Rightarrow>
          (case ObjectId_of_string id' of
             None \<Rightarrow> (\<lparr>status = 500, payload = ErrorPage\<rparr>, s)
           | Some i \<Rightarrow>
               (case updateOne (ObjectId i) (bson_of b) (reviewCollection s) of
                  Inl e \<Rightarrow> (\<lparr>status = 500, payload = Message ''Failed to update review''\<rparr>, s)
                | Inr (matchedCount, c) \<Rightarrow>
                    (if matchedCount = 0
                     then \<lparr>status = 404, payload = Message ''Review not found''\<rparr>
                     else \<lparr>status = 200, payload = Message ''Review updated successfully''\<rparr>,
                     s\<lparr>reviewCollection := c\<rparr>))))"

text \<open>\<^verbatim>\<open>DELETE /reviews/:id\<close>\<close>

definition DELETE_reviews_id :: "db \<Rightarrow> string \<Rightarrow> response \<times> db" where
  "DELETE_reviews_id s id' =
     (case ObjectId_of_string id' of
        None \<Rightarrow> (\<lparr>status = 500, payload = ErrorPage\<rparr>, s)
      | Some i \<Rightarrow>
          (case deleteOne (ObjectId i) (reviewCollection s) of
             (deletedCount, c) \<Rightarrow>
               (if deletedCount = 0
                then \<lparr>status = 404, payload = Message ''Review not found''\<rparr>
                else \<lparr>status = 200, payload = Message ''Review deleted''\<rparr>,
                s\<lparr>reviewCollection := c\<rparr>)))"

subsection \<open>The favorite routes\<close>

text \<open>
  \<^verbatim>\<open>POST /favorites\<close>. The handler reads \<^verbatim>\<open>userEmail\<close> and \<^verbatim>\<open>reviewId\<close> from
  the body; the driver writes an undefined value as null. The response is the one sent
  first: nothing the chain does after a response has been sent changes it.
\<close>

definition post_favorites_chains :: "chain list" where
  "post_favorites_chains =
     [(''userEmail'', False, IsEmail),
      (''reviewId'', False, NotEmpty)]"

definition serialize :: "json option \<Rightarrow> bson" where
  "serialize v = (case v of None \<Rightarrow> Scalar JNull | Some j \<Rightarrow> Scalar j)"

definition POST_favorites :: "libs \<Rightarrow> int \<Rightarrow> oid \<Rightarrow> db \<Rightarrow> body \<Rightarrow> response \<times> db" where
  "POST_favorites L now nid s b =
     (case handleValidationErrors L post_favorites_chains b of
        Some r \<Rightarrow> (r, s)
      | None \<Rightarrow>
          (let userEmail = serialize (map_of b ''userEmail'');
               reviewId = serialize (map_of b ''reviewId'')
           in case findOne L [Eq ''userEmail'' userEmail, Eq ''reviewId'' reviewId]
                     (favoritesCollection s) of
                Some exists \<Rightarrow> (\<lparr>status = 400, payload = Message ''Already favorited''\<rparr>, s)
              | None \<Rightarrow>
                  (case insertOne nid
                          [(''userEmail'', userEmail), (''reviewId'', reviewId), (''date'', Date now)]
                          (favoritesCollection s) of
                     Inl e \<Rightarrow> (\<lparr>status = 500, payload = Message ''Failed to add favorite''\<rparr>, s)
                   | Inr (i, c) \<Rightarrow>
                       (\<lparr>status = 201, payload = InsertResult i\<rparr>,
                        s\<lparr>favoritesCollection := c\<rparr>))))"

text \<open>
  \<^verbatim>\<open>new ObjectId(fav.reviewId)\<close> on a stored value: undefined, null and a number make
  the constructor generate a new identifier, which no stored review has (\<open>Inr None\<close>); a
  string is parsed; an ObjectId is copied; a boolean or a Date throws.
\<close>

fun new_ObjectId :: "bson option \<Rightarrow> storage_error + oid option" where
  "new_ObjectId None = Inr None"
| "new_ObjectId (Some (Scalar JNull)) = Inr None"
| "new_ObjectId (Some (Scalar (JNum n))) = Inr None"
| "new_ObjectId (Some (Scalar (JStr s))) =
     (case ObjectId_of_string s of None \<Rightarrow> Inl BadObjectId | Some i \<Rightarrow> Inr (Some i))"
| "new_ObjectId (Some (Scalar (JBool b))) = Inl BadObjectId"
| "new_ObjectId (Some (Date t)) = Inl BadObjectId"
| "new_ObjectId (Some (ObjectId i)) = Inr (Some i)"

text \<open>\<^verbatim>\<open>findOne({ _id: new ObjectId(fav.reviewId) }).then((review) => ({ ...fav, review }))\<close>\<close>

definition populate :: "libs \<Rightarrow> collection \<Rightarrow> doc \<Rightarrow> storage_error + (doc \<times> doc option)" where
  "populate L reviews fav =
     (case new_ObjectId (map_of fav ''reviewId'') of
        Inl e \<Rightarrow> Inl e
      | Inr None \<Rightarrow> Inr (AList.delete ''review'' fav, None)
      | Inr (Some i) \<Rightarrow>
          Inr (AList.delete ''review'' fav, findOne L [Eq ''_id'' (ObjectId i)] reviews))"

text \<open>\<^verbatim>\<open>Promise.all(favorites.map(...))\<close>: one exception rejects the whole promise.\<close>

fun populate_all :: "libs \<Rightarrow> collection \<Rightarrow> doc list \<Rightarrow> storage_error + (doc \<times> doc option) list" where
  "populate_all L reviews [] = Inr []"
| "populate_all L reviews (fav # favs) =
     (case populate L reviews fav of
        Inl e \<Rightarrow> Inl e
      | Inr p \<Rightarrow>
          (case populate_all L reviews favs of
             Inl e \<Rightarrow> Inl e
           | Inr ps \<Rightarrow> Inr (p # ps)))"

text \<open>\<^verbatim>\<open>GET /favorites/:email\<close>\<close>

definition GET_favorites_email :: "libs \<Rightarrow> db \<Rightarrow> string \<Rightarrow> response" where
  "GET_favorites_email L s email =
     (case find L [Eq ''userEmail'' (Scalar (JStr email))] (favoritesCollection s) of
        Inl e \<Rightarrow> \<lparr>status = 500, payload = Message ''Failed to fetch favorites''\<rparr>
      | Inr favorites \<Rightarrow>
          (case populate_all L (reviewCollection s) favorites of
             Inl e \<Rightarrow> \<lparr>status = 500, payload = Message ''Failed to fetch favorites''\<rparr>
           | Inr populated \<Rightarrow> \<lparr>status = 200, payload = Populated populated\<rparr>))"

subsection \<open>Substring search, and one instance of the library functions\<close>

text \<open>
  Case-insensitive substring match, the search the specification describes: some segment
  of the subject equals the text up to letter case.
\<close>

fun ci_prefix :: "string \<Rightarrow> string \<Rightarrow> bool" where
  "ci_prefix [] s = True"
| "ci_prefix (p # ps) [] = False"
| "ci_prefix (p # ps) (c # cs) = (lower p = lower c \<and> ci_prefix ps cs)"

fun ci_infix :: "string \<Rightarrow> string \<Rightarrow> bool" where
  "ci_infix p [] = ci_prefix p []"
| "ci_infix p (c # cs) = (ci_prefix p (c # cs) \<or> ci_infix p cs)"

text \<open>
  The characters with a meaning of their own in a regular expression. A pattern without
  them is literal text.
\<close>

definition regex_meta :: "char \<Rightarrow> bool" where
  "regex_meta c = (c \<in> set (CHR 0x5C # ''^$.[]|()?*+{}''))"

definition literal_text :: "string \<Rightarrow> bool" where
  "literal_text p = list_all (\<lambda>c. \<not> regex_meta c) p"

text \<open>
  What the theorems on search assume of the storage's engine: a pattern that is literal
  text compiles, and matches as case-insensitive substring search.
\<close>

definition literal_engine :: "libs \<Rightarrow> bool" where
  "literal_engine L = (\<forall>p. literal_text p \<longrightarrow> regex_i L p = Some (ci_infix p))"

text \<open>
  An instance of the three library functions for the concrete requests below. It is exact
  on what those requests use: patterns made of literal text and the dot (any character
  but a line feed), with every other pattern taken as one that does not compile, as
  \<^verbatim>\<open>(\<close> is; strings that are integer literals; and the addresses \<^verbatim>\<open>a@b.com\<close> and
  \<^verbatim>\<open>c@d.org\<close>.
\<close>

fun dot_prefix :: "string \<Rightarrow> string \<Rightarrow> bool" where
  "dot_prefix [] s = True"
| "dot_prefix (p # ps) [] = False"
| "dot_prefix (p # ps) (c # cs) =
     ((if p = CHR ''.'' then c \<noteq> CHR 0x0A else lower p = lower c) \<and> dot_prefix ps cs)"

fun dot_search :: "string \<Rightarrow> string \<Rightarrow> bool" where
  "dot_search p [] = dot_prefix p []"
| "dot_search p (c # cs) = (dot_prefix p (c # cs) \<or> dot_search p cs)"

definition dot_regex :: "string \<Rightarrow> (string \<Rightarrow> bool) option" where
  "dot_regex p =
     (if list_all (\<lambda>c. c = CHR ''.'' \<or> \<not> regex_meta c) p then Some (dot_search p) else None)"

definition integer_string :: "string \<Rightarrow> jsnum" where
  "integer_string s = (if int_literal s then Fin (of_int (int_value s)) else NaN)"

definition listed_email :: "string \<Rightarrow> bool" where
  "listed_email s = (s \<in> set [''a@b.com'', ''c@d.org''])"

definition sample_libs :: libs where
  "sample_libs =
     \<lparr>isEmail = listed_email, StringToNumber = integer_string, regex_i = dot_regex\<rparr>"

subsection \<open>What the properties speak of\<close>

text \<open>
  A body violates a declared rule when the chain is not skipped and its validator fails.
  The entry express-validator records for a chain.
\<close>

fun violates :: "libs \<Rightarrow> body \<Rightarrow> chain \<Rightarrow> bool" where
  "violates L b (f, opt, v) = (\<not> (opt \<and> map_of b f = None) \<and> \<not> passes L v (map_of b f))"

fun entry :: "chain \<Rightarrow> field_error" where
  "entry (f, opt, v) = \<lparr>path = f, msg = ''Invalid value''\<rparr>"

text \<open>The favorites stored for a pair of \<^verbatim>\<open>userEmail\<close> and \<^verbatim>\<open>reviewId\<close>.\<close>

definition is_pair :: "bson \<Rightarrow> bson \<Rightarrow> doc \<Rightarrow> bool" where
  "is_pair e r d = (map_of d ''userEmail'' = Some e \<and> map_of d ''reviewId'' = Some r)"

definition pair_count :: "bson \<Rightarrow> bson \<Rightarrow> collection \<Rightarrow> nat" where
  "pair_count e r c = length (filter (is_pair e r) c)"

text \<open>No stored document has the identifier.\<close>

definition unused :: "bson \<Rightarrow> collection \<Rightarrow> bool" where
  "unused i c = (\<forall>d \<in> set c. map_of d ''_id'' \<noteq> Some i)"

text \<open>
  The identifier a new review gets: the body's \<^verbatim>\<open>_id\<close> when it has one that is not
  null, else the generated one.
\<close>

definition document_id :: "oid \<Rightarrow> body \<Rightarrow> bson" where
  "document_id nid b =
     (case map_of b ''_id'' of
        None \<Rightarrow> ObjectId nid
      | Some j \<Rightarrow> if j = JNull then ObjectId nid else Scalar j)"

text \<open>The \<^verbatim>\<open>rating\<close> of a document is of the number type.\<close>

definition numeric_rating :: "doc \<Rightarrow> bool" where
  "numeric_rating d = (case map_of d ''rating'' of Some (Scalar (JNum n)) \<Rightarrow> True | _ \<Rightarrow> False)"

text \<open>
  A list of documents is descending in a field when the comparison order of the storage
  never rises along it. The ratings of a list are non-increasing when each is a finite
  number and, in JavaScript's \<^verbatim>\<open>>=\<close>, at least every later one.
\<close>

definition descending :: "string \<Rightarrow> doc list \<Rightarrow> bool" where
  "descending f ds = sorted_wrt (\<lambda>x y. bson_key (map_of y f) \<le> bson_key (map_of x f)) ds"

definition finite_rating :: "doc \<Rightarrow> rat option" where
  "finite_rating d = (case map_of d ''rating'' of Some (Scalar (JNum (Fin q))) \<Rightarrow> Some q | _ \<Rightarrow> None)"

definition rating_ge :: "doc \<Rightarrow> doc \<Rightarrow> bool" where
  "rating_ge x y =
     (case finite_rating x of
        None \<Rightarrow> False
      | Some a \<Rightarrow> (case finite_rating y of None \<Rightarrow> False | Some b \<Rightarrow> b \<le> a))"

definition ratings_non_increasing :: "doc list \<Rightarrow> bool" where
  "ratings_non_increasing ds = sorted_wrt rating_ge ds"

text \<open>
  The reviews a listing selects, for a given way to search a name: the \<^verbatim>\<open>userEmail\<close>
  filter, when it is given and not empty, is exact equality; the search filter, when it is
  given and not blank, asks for a \<^verbatim>\<open>foodName\<close> that is a string the search finds.
  The specification's search is \<open>ci_infix\<close>; the code's is the storage's engine.
\<close>

definition selected :: "(string \<Rightarrow> string \<Rightarrow> bool) \<Rightarrow> string option \<Rightarrow> string option \<Rightarrow> doc \<Rightarrow> bool" where
  "selected srch userEmail search d =
     ((case userEmail of
         None \<Rightarrow> True
       | Some e \<Rightarrow> e = [] \<or> map_of d ''userEmail'' = Some (Scalar (JStr e))) \<and>
      (case search of
         None \<Rightarrow> True
       | Some p \<Rightarrow> trim p = [] \<or>
           (case map_of d ''foodName'' of Some (Scalar (JStr n)) \<Rightarrow> srch p n | _ \<Rightarrow> False)))"

definition engine :: "libs \<Rightarrow> string \<Rightarrow> string \<Rightarrow> bool" where
  "engine L p n = (case regex_i L p of None \<Rightarrow> False | Some m \<Rightarrow> m n)"

definition search_compiles :: "libs \<Rightarrow> string option \<Rightarrow> bool" where
  "search_compiles L search =
     (case search of None \<Rightarrow> True | Some p \<Rightarrow> trim p = [] \<or> regex_i L p \<noteq> None)"

definition literal_search :: "string option \<Rightarrow> bool" where
  "literal_search search = (case search of None \<Rightarrow> True | Some p \<Rightarrow> literal_text p)"

text \<open>
  The favorites of an email; a favorite whose \<^verbatim>\<open>reviewId\<close> the ObjectId constructor
  accepts; and the review joined to a favorite: the first stored review with the
  identifier, or none.
\<close>

definition favorites_of :: "string \<Rightarrow> collection \<Rightarrow> doc list" where
  "favorites_of email c = filter (\<lambda>d. map_of d ''userEmail'' = Some (Scalar (JStr email))) c"

definition reference_ok :: "doc \<Rightarrow> bool" where
  "reference_ok fav =
     (case new_ObjectId (map_of fav ''reviewId'') of Inl e \<Rightarrow> False | Inr i \<Rightarrow> True)"

definition joined_review :: "collection \<Rightarrow> doc \<Rightarrow> doc option" where
  "joined_review reviews fav =
     (case new_ObjectId (map_of fav ''reviewId'') of
        Inr (Some i) \<Rightarrow> List.find (\<lambda>d. map_of d ''_id'' = Some (ObjectId i)) reviews
      | _ \<Rightarrow> None)"

subsection \<open>Sample requests and documents\<close>

definition taco_id :: oid where
  "taco_id = ''507f1f77bcf86cd799439011''"

definition taco :: doc where
  "taco =
     [(''_id'', ObjectId taco_id),
      (''foodName'', Scalar (JStr ''Taco'')),
      (''foodImage'', Scalar (JStr ''x.png'')),
      (''restaurantName'', Scalar (JStr ''Joe'')),
      (''rating'', Scalar (JNum (Fin 4))),
      (''userEmail'', Scalar (JStr ''a@b.com'')),
      (''date'', Date 1000)]"

definition one_review :: db where
  "one_review = \<lparr>reviewCollection = [taco], favoritesCollection = []\<rparr>"

definition no_data :: db where
  "no_data = \<lparr>reviewCollection = [], favoritesCollection = []\<rparr>"

definition favorite_body :: body where
  "favorite_body =
     [(''userEmail'', JStr ''a@b.com''),
      (''reviewId'', JStr ''507f1f77bcf86cd799439011''),
      (''note'', JStr ''yum''),
      (''date'', JStr ''yesterday'')]"

definition favorite_id :: oid where
  "favorite_id = ''65a000000000000000000001''"

definition favorite_id2 :: oid where
  "favorite_id2 = ''65a000000000000000000002''"

definition taco_favorite :: doc where
  "taco_favorite =
     [(''userEmail'', Scalar (JStr ''a@b.com'')),
      (''reviewId'', Scalar (JStr ''507f1f77bcf86cd799439011'')),
      (''date'', Date 2000),
      (''_id'', ObjectId favorite_id)]"

definition one_favorite :: db where
  "one_favorite = \<lparr>reviewCollection = [], favoritesCollection = [taco_favorite]\<rparr>"






definition burrito :: doc where
  "burrito =
     [(''_id'', ObjectId taco_id),
      (''foodName'', Scalar (JStr ''Burrito'')),
      (''foodImage'', Scalar (JStr ''x.png'')),
      (''restaurantName'', Scalar (JStr ''Joe'')),
      (''rating'', Scalar (JStr ''5'')),
      (''userEmail'', Scalar (JStr ''a@b.com'')),
      (''date'', Date 1000),
      (''note'', Scalar (JStr ''yum''))]"

definition string_body :: body where
  "string_body =
     [(''foodName'', JStr ''Taco''),
      (''foodImage'', JStr ''x.png''),
      (''restaurantName'', JStr ''Joe''),
      (''rating'', JStr ''4''),
      (''userEmail'', JStr ''a@b.com'')]"

definition string_taco :: doc where
  "string_taco =
     [(''foodName'', Scalar (JStr ''Taco'')),
      (''foodImage'', Scalar (JStr ''x.png'')),
      (''restaurantName'', Scalar (JStr ''Joe'')),
      (''rating'', Scalar (JStr ''4'')),
      (''userEmail'', Scalar (JStr ''a@b.com'')),
      (''date'', Date 2000),
      (''_id'', ObjectId taco_id)]"

definition one_string_review :: db where
  "one_string_review = \<lparr>reviewCollection = [string_taco], favoritesCollection = []\<rparr>"

definition five_body :: body where
  "five_body =
     [(''foodName'', JStr ''Pho''),
      (''foodImage'', JStr ''y.png''),
      (''restaurantName'', JStr ''Lan''),
      (''rating'', JNum (Fin 5)),
      (''userEmail'', JStr ''c@d.org'')]"

definition pho_id :: oid where
  "pho_id = ''507f1f77bcf86cd799439012''"

definition pho :: doc where
  "pho =
     [(''foodName'', Scalar (JStr ''Pho'')),
      (''foodImage'', Scalar (JStr ''y.png'')),
      (''restaurantName'', Scalar (JStr ''Lan'')),
      (''rating'', Scalar (JNum (Fin 5))),
      (''userEmail'', Scalar (JStr ''c@d.org'')),
      (''date'', Date 3000),
      (''_id'', ObjectId pho_id)]"

definition numeric_taco :: doc where
  "numeric_taco =
     [(''foodName'', Scalar (JStr ''Taco'')),
      (''foodImage'', Scalar (JStr ''x.png'')),
      (''restaurantName'', Scalar (JStr ''Joe'')),
      (''rating'', Scalar (JNum (Fin 4))),
      (''userEmail'', Scalar (JStr ''a@b.com'')),
      (''date'', Date 2000),
      (''_id'', ObjectId taco_id)]"

definition two_reviews :: db where
  "two_reviews = \<lparr>reviewCollection = [string_taco, pho], favoritesCollection = []\<rparr>"

definition numeric_reviews :: db where
  "numeric_reviews = \<lparr>reviewCollection = [taco, pho], favoritesCollection = []\<rparr>"

definition taco_favorited :: db where
  "taco_favorited = \<lparr>reviewCollection = [taco], favoritesCollection = [taco_favorite]\<rparr>"

definition bad_body :: body where
  "bad_body = [(''userEmail'', JStr ''a@b.com''), (''reviewId'', JStr ''bad'')]"

definition bad_favorite :: doc where
  "bad_favorite =
     [(''userEmail'', Scalar (JStr ''a@b.com'')),
      (''reviewId'', Scalar (JStr ''bad'')),
      (''date'', Date 3000),
      (''_id'', ObjectId favorite_id2)]"

definition bad_favorited :: db where
  "bad_favorited =
     \<lparr>reviewCollection = [taco], favoritesCollection = [taco_favorite, bad_favorite]\<rparr>"

section \<open>Properties\<close>

subsection \<open>Queries by identifier\<close>

lemma matches_id [simp]:
  "matches L [Eq ''_id'' (ObjectId i)] d = (map_of d ''_id'' = Some (ObjectId i))"
  by (auto simp: matches_def field_is_def split: option.splits)

lemma findOne_id_None:
  "(findOne L [Eq ''_id'' (ObjectId i)] c = None) =
   (\<forall>d \<in> set c. map_of d ''_id'' \<noteq> Some (ObjectId i))"
  by (auto simp: findOne_def find_None_iff)

lemma findOne_id_Some:
  "findOne L [Eq ''_id'' (ObjectId i)] c = Some r \<Longrightarrow>
   r \<in> set c \<and> map_of r ''_id'' = Some (ObjectId i)"
  by (auto simp: findOne_def find_Some_iff)

lemma ObjectId_of_string_None:
  "(ObjectId_of_string s = None) = (length s \<noteq> 24 \<or> (\<exists>c \<in> set s. \<not> is_hex c))"
  by (auto simp: ObjectId_of_string_def list_all_iff)

text \<open>
  C5. \<^verbatim>\<open>GET /reviews/:id\<close> has three outcomes. An identifier that does not parse (it
  is not 24 hexadecimal digits) is answered 500. One that parses and is the \<^verbatim>\<open>_id\<close> of
  no stored review is answered 404. One that parses and is the \<^verbatim>\<open>_id\<close> of a stored
  review is answered 200 with that review, its rating converted to a number.
\<close>

theorem GET_reviews_id_outcomes:
  "(ObjectId_of_string id' = None \<longrightarrow>
      (length id' \<noteq> 24 \<or> (\<exists>c \<in> set id'. \<not> is_hex c)) \<and>
      status (GET_reviews_id L s id') = 500) \<and>
   (\<forall>i. ObjectId_of_string id' = Some i \<and>
        (\<forall>d \<in> set (reviewCollection s). map_of d ''_id'' \<noteq> Some (ObjectId i)) \<longrightarrow>
        GET_reviews_id L s id' = \<lparr>status = 404, payload = Message ''Review not found''\<rparr>) \<and>
   (\<forall>i. ObjectId_of_string id' = Some i \<and>
        (\<exists>d \<in> set (reviewCollection s). map_of d ''_id'' = Some (ObjectId i)) \<longrightarrow>
        (\<exists>r \<in> set (reviewCollection s). map_of r ''_id'' = Some (ObjectId i) \<and>
           GET_reviews_id L s id' =
             \<lparr>status = 200, payload = Document (with_numeric_rating L r)\<rparr>))"
proof (intro conjI allI impI)
  assume "ObjectId_of_string id' = None"
  then show "length id' \<noteq> 24 \<or> (\<exists>c \<in> set id'. \<not> is_hex c)"
    by (simp add: ObjectId_of_string_None)
next
  assume "ObjectId_of_string id' = None"
  then show "status (GET_reviews_id L s id') = 500"
    by (simp add: GET_reviews_id_def)
next
  fix i
  assume "ObjectId_of_string id' = Some i \<and>
    (\<forall>d \<in> set (reviewCollection s). map_of d ''_id'' \<noteq> Some (ObjectId i))"
  then have "ObjectId_of_string id' = Some i"
    and "findOne L [Eq ''_id'' (ObjectId i)] (reviewCollection s) = None"
    by (simp_all add: findOne_id_None)
  then show "GET_reviews_id L s id' = \<lparr>status = 404, payload = Message ''Review not found''\<rparr>"
    by (simp add: GET_reviews_id_def)
next
  fix i
  assume a: "ObjectId_of_string id' = Some i \<and>
    (\<exists>d \<in> set (reviewCollection s). map_of d ''_id'' = Some (ObjectId i))"
  then have "findOne L [Eq ''_id'' (ObjectId i)] (reviewCollection s) \<noteq> None"
    by (simp add: findOne_id_None)
  then obtain r where r: "findOne L [Eq ''_id'' (ObjectId i)] (reviewCollection s) = Some r"
    by blast
  from findOne_id_Some [OF r] a r
  show "\<exists>r \<in> set (reviewCollection s). map_of r ''_id'' = Some (ObjectId i) \<and>
           GET_reviews_id L s id' =
             \<lparr>status = 200, payload = Document (with_numeric_rating L r)\<rparr>"
    by (auto simp: GET_reviews_id_def)
qed

lemma taco_id_parses: "ObjectId_of_string ''507F1F77BCF86CD799439011'' = Some taco_id"
  by (simp add: ObjectId_of_string_def is_hex_def lower_def taco_id_def)

lemma other_id_parses:
  "ObjectId_of_string ''000000000000000000000000'' = Some ''000000000000000000000000''"
  by (simp add: ObjectId_of_string_def is_hex_def lower_def)

theorem GET_reviews_id_outcomes_witness:
  "ObjectId_of_string ''top10'' = None \<and>
   status (GET_reviews_id sample_libs one_review ''top10'') = 500 \<and>
   GET_reviews_id sample_libs one_review ''000000000000000000000000'' =
     \<lparr>status = 404, payload = Message ''Review not found''\<rparr> \<and>
   GET_reviews_id sample_libs one_review ''507F1F77BCF86CD799439011'' =
     \<lparr>status = 200, payload = Document taco\<rparr>"
proof -
  have bad: "ObjectId_of_string ''top10'' = None"
    by (simp add: ObjectId_of_string_def)
  have absent: "\<forall>d \<in> set (reviewCollection one_review).
      map_of d ''_id'' \<noteq> Some (ObjectId ''000000000000000000000000'')"
    by (simp add: one_review_def taco_def taco_id_def)
  have present: "\<exists>d \<in> set (reviewCollection one_review). map_of d ''_id'' = Some (ObjectId taco_id)"
    by (simp add: one_review_def taco_def)
  have same: "with_numeric_rating sample_libs taco = taco"
    by (simp add: with_numeric_rating_def taco_def)
  note t1 = GET_reviews_id_outcomes [of "''top10''" sample_libs one_review]
  note t2 = GET_reviews_id_outcomes [of "''000000000000000000000000''" sample_libs one_review]
  note t3 = GET_reviews_id_outcomes [of "''507F1F77BCF86CD799439011''" sample_libs one_review]
  from t1 bad have "status (GET_reviews_id sample_libs one_review ''top10'') = 500"
    by blast
  moreover from t2 other_id_parses absent
  have "GET_reviews_id sample_libs one_review ''000000000000000000000000'' =
     \<lparr>status = 404, payload = Message ''Review not found''\<rparr>"
    by blast
  moreover from t3 taco_id_parses present
  have "\<exists>r \<in> set (reviewCollection one_review). map_of r ''_id'' = Some (ObjectId taco_id) \<and>
      GET_reviews_id sample_libs one_review ''507F1F77BCF86CD799439011'' =
        \<lparr>status = 200, payload = Document (with_numeric_rating sample_libs r)\<rparr>"
    by blast
  then have "GET_reviews_id sample_libs one_review ''507F1F77BCF86CD799439011'' =
     \<lparr>status = 200, payload = Document taco\<rparr>"
    using same by (simp add: one_review_def)
  ultimately show ?thesis using bad by simp
qed

subsection \<open>Validation\<close>

lemma validationResult_violations:
  "validationResult L cs b = map entry (filter (violates L b) cs)"
  by (induction cs) (auto simp: validationResult_def)

lemma handleValidationErrors_Some:
  "list_ex (violates L b) cs \<Longrightarrow>
   handleValidationErrors L cs b =
     Some \<lparr>status = 400, payload = Errors (map entry (filter (violates L b) cs))\<rparr>"
  by (auto simp: handleValidationErrors_def validationResult_violations Let_def
      list_ex_iff filter_empty_conv)

lemma handleValidationErrors_None:
  "(handleValidationErrors L cs b = None) = (\<not> list_ex (violates L b) cs)"
  by (auto simp: handleValidationErrors_def validationResult_violations Let_def
      list_ex_iff filter_empty_conv)

text \<open>
  C9. On each of the three routes that declare chains, a body that violates at least one
  declared rule is answered 400 with the list of entries, one per violated rule and in the
  order of the declaration, each with the field's path and a message; the list is not
  empty, and the collections are returned as they were: the handler did not run.
\<close>

theorem validation_rejects:
  "(list_ex (violates L b) post_reviews_chains \<longrightarrow>
      filter (violates L b) post_reviews_chains \<noteq> [] \<and>
      POST_reviews L now nid s b =
        (\<lparr>status = 400,
          payload = Errors (map entry (filter (violates L b) post_reviews_chains))\<rparr>, s)) \<and>
   (list_ex (violates L b) put_reviews_chains \<longrightarrow>
      filter (violates L b) put_reviews_chains \<noteq> [] \<and>
      PUT_reviews_id L s id' b =
        (\<lparr>status = 400,
          payload = Errors (map entry (filter (violates L b) put_reviews_chains))\<rparr>, s)) \<and>
   (list_ex (violates L b) post_favorites_chains \<longrightarrow>
      filter (violates L b) post_favorites_chains \<noteq> [] \<and>
      POST_favorites L now nid s b =
        (\<lparr>status = 400,
          payload = Errors (map entry (filter (violates L b) post_favorites_chains))\<rparr>, s))"
proof (intro conjI impI)
  assume "list_ex (violates L b) post_reviews_chains"
  then show "POST_reviews L now nid s b =
        (\<lparr>status = 400,
          payload = Errors (map entry (filter (violates L b) post_reviews_chains))\<rparr>, s)"
    by (simp add: POST_reviews_def handleValidationErrors_Some)
next
  assume "list_ex (violates L b) put_reviews_chains"
  then show "PUT_reviews_id L s id' b =
        (\<lparr>status = 400,
          payload = Errors (map entry (filter (violates L b) put_reviews_chains))\<rparr>, s)"
    by (simp add: PUT_reviews_id_def handleValidationErrors_Some)
next
  assume "list_ex (violates L b) post_favorites_chains"
  then show "POST_favorites L now nid s b =
        (\<lparr>status = 400,
          payload = Errors (map entry (filter (violates L b) post_favorites_chains))\<rparr>, s)"
    by (simp add: POST_favorites_def handleValidationErrors_Some)
qed (simp_all add: list_ex_iff filter_empty_conv)

lemma sample_violations:
  "filter (violates sample_libs [(''rating'', JNum (Fin 7)), (''userEmail'', JStr ''a@b.com'')])
     post_reviews_chains =
   [(''foodName'', False, NotEmpty), (''foodImage'', False, NotEmpty),
    (''restaurantName'', False, NotEmpty), (''rating'', False, IsInt 0 5)]"
  "filter (violates sample_libs [(''rating'', JNum (Fin 7)), (''userEmail'', JStr ''a@b.com'')])
     put_reviews_chains = [(''rating'', True, IsInt 0 5)]"
  "filter (violates sample_libs [(''rating'', JNum (Fin 7)), (''userEmail'', JStr ''a@b.com'')])
     post_favorites_chains = [(''reviewId'', False, NotEmpty)]"
  by (simp_all add: post_reviews_chains_def put_reviews_chains_def post_favorites_chains_def
      sample_libs_def listed_email_def)

theorem validation_rejects_witness:
  "POST_reviews sample_libs 2000 favorite_id one_review
       [(''rating'', JNum (Fin 7)), (''userEmail'', JStr ''a@b.com'')] =
     (\<lparr>status = 400,
       payload = Errors [\<lparr>path = ''foodName'', msg = ''Invalid value''\<rparr>,
                         \<lparr>path = ''foodImage'', msg = ''Invalid value''\<rparr>,
                         \<lparr>path = ''restaurantName'', msg = ''Invalid value''\<rparr>,
                         \<lparr>path = ''rating'', msg = ''Invalid value''\<rparr>]\<rparr>, one_review) \<and>
   PUT_reviews_id sample_libs one_review ''507f1f77bcf86cd799439011''
       [(''rating'', JNum (Fin 7)), (''userEmail'', JStr ''a@b.com'')] =
     (\<lparr>status = 400, payload = Errors [\<lparr>path = ''rating'', msg = ''Invalid value''\<rparr>]\<rparr>,
      one_review) \<and>
   POST_favorites sample_libs 2000 favorite_id one_review
       [(''rating'', JNum (Fin 7)), (''userEmail'', JStr ''a@b.com'')] =
     (\<lparr>status = 400, payload = Errors [\<lparr>path = ''reviewId'', msg = ''Invalid value''\<rparr>]\<rparr>,
      one_review)"
proof -
  let ?b = "[(''rating'', JNum (Fin 7)), (''userEmail'', JStr ''a@b.com'')]"
  have ex: "list_ex (violates sample_libs ?b) post_reviews_chains"
    "list_ex (violates sample_libs ?b) put_reviews_chains"
    "list_ex (violates sample_libs ?b) post_favorites_chains"
    by (simp_all add: post_reviews_chains_def put_reviews_chains_def post_favorites_chains_def)
  from ex validation_rejects [of sample_libs ?b 2000 favorite_id one_review
      "''507f1f77bcf86cd799439011''"]
  show ?thesis
    by (simp add: sample_violations)
qed

subsection \<open>Favorites\<close>

lemma valid_favorite:
  assumes "handleValidationErrors L post_favorites_chains b = None"
  shows "\<exists>e r. map_of b ''userEmail'' = Some (JStr e) \<and> map_of b ''reviewId'' = Some r \<and>
           r \<noteq> JNull"
proof -
  from assms have "passes L IsEmail (map_of b ''userEmail'')"
    and "passes L NotEmpty (map_of b ''reviewId'')"
    by (simp_all add: handleValidationErrors_None post_favorites_chains_def)
  then show ?thesis
    by (auto split: option.splits json.splits)
qed

lemma matches_pair:
  "e \<noteq> Scalar JNull \<Longrightarrow> r \<noteq> Scalar JNull \<Longrightarrow>
   matches L [Eq ''userEmail'' e, Eq ''reviewId'' r] = is_pair e r"
  by (auto simp: matches_def field_is_def is_pair_def fun_eq_iff split: option.splits)

lemma findOne_pair:
  "e \<noteq> Scalar JNull \<Longrightarrow> r \<noteq> Scalar JNull \<Longrightarrow>
   (findOne L [Eq ''userEmail'' e, Eq ''reviewId'' r] c = None) = (pair_count e r c = 0)"
  by (auto simp: findOne_def matches_pair find_None_iff pair_count_def filter_empty_conv)

lemma update_absent: "map_of d k = None \<Longrightarrow> AList.update k v d = d @ [(k, v)]"
  by (induction d) (auto split: if_splits)

lemma insertOne_generated:
  "map_of d ''_id'' = None \<Longrightarrow> unused (ObjectId nid) c \<Longrightarrow>
   insertOne nid d c = Inr (ObjectId nid, c @ [d @ [(''_id'', ObjectId nid)]])"
  by (auto simp: insertOne_def unused_def list_ex_iff Let_def update_absent)

lemma POST_favorites_exists:
  assumes "handleValidationErrors L post_favorites_chains b = None"
    and "pair_count (serialize (map_of b ''userEmail'')) (serialize (map_of b ''reviewId''))
           (favoritesCollection s) \<noteq> 0"
  shows "POST_favorites L now nid s b =
           (\<lparr>status = 400, payload = Message ''Already favorited''\<rparr>, s)"
proof -
  from valid_favorite [OF assms(1)] obtain e r where
    b: "map_of b ''userEmail'' = Some (JStr e)" "map_of b ''reviewId'' = Some r" "r \<noteq> JNull"
    by blast
  from assms(2) b
  have "findOne L [Eq ''userEmail'' (Scalar (JStr e)), Eq ''reviewId'' (Scalar r)]
          (favoritesCollection s) \<noteq> None"
    by (simp add: findOne_pair serialize_def)
  then show ?thesis
    using assms(1) b by (auto simp: POST_favorites_def serialize_def)
qed

lemma POST_favorites_new:
  assumes "handleValidationErrors L post_favorites_chains b = None"
    and "pair_count (serialize (map_of b ''userEmail'')) (serialize (map_of b ''reviewId''))
           (favoritesCollection s) = 0"
    and "unused (ObjectId nid) (favoritesCollection s)"
  shows "POST_favorites L now nid s b =
           (\<lparr>status = 201, payload = InsertResult (ObjectId nid)\<rparr>,
            s\<lparr>favoritesCollection := favoritesCollection s @
               [[(''userEmail'', serialize (map_of b ''userEmail'')),
                 (''reviewId'', serialize (map_of b ''reviewId'')),
                 (''date'', Date now),
                 (''_id'', ObjectId nid)]]\<rparr>)"
proof -
  from valid_favorite [OF assms(1)] obtain e r where
    b: "map_of b ''userEmail'' = Some (JStr e)" "map_of b ''reviewId'' = Some r" "r \<noteq> JNull"
    by blast
  from assms(2) b
  have "findOne L [Eq ''userEmail'' (Scalar (JStr e)), Eq ''reviewId'' (Scalar r)]
          (favoritesCollection s) = None"
    by (simp add: findOne_pair serialize_def)
  then show ?thesis
    using assms(1,3) b by (simp add: POST_favorites_def serialize_def insertOne_generated)
qed

lemma POST_favorites_cases:
  "snd (POST_favorites L now nid s b) = s \<or>
   (handleValidationErrors L post_favorites_chains b = None \<and>
    pair_count (serialize (map_of b ''userEmail'')) (serialize (map_of b ''reviewId''))
      (favoritesCollection s) = 0 \<and>
    unused (ObjectId nid) (favoritesCollection s))"
proof (cases "handleValidationErrors L post_favorites_chains b")
  case (Some r)
  then show ?thesis by (simp add: POST_favorites_def)
next
  case None
  show ?thesis
  proof (cases "pair_count (serialize (map_of b ''userEmail''))
      (serialize (map_of b ''reviewId'')) (favoritesCollection s) = 0")
    case False
    with None show ?thesis by (simp add: POST_favorites_exists)
  next
    case True
    show ?thesis
    proof (cases "unused (ObjectId nid) (favoritesCollection s)")
      case True
      with None \<open>pair_count _ _ _ = 0\<close> show ?thesis by simp
    next
      case False
      then have "insertOne nid [(''userEmail'', serialize (map_of b ''userEmail'')),
          (''reviewId'', serialize (map_of b ''reviewId'')), (''date'', Date now)]
          (favoritesCollection s) = Inl DuplicateKey"
        by (auto simp: insertOne_def unused_def list_ex_iff)
      with None show ?thesis
        by (simp add: POST_favorites_def Let_def split: option.splits)
    qed
  qed
qed

text \<open>
  C2. For a validated \<^verbatim>\<open>POST /favorites\<close>: when a favorite with the body's
  \<^verbatim>\<open>userEmail\<close> and \<^verbatim>\<open>reviewId\<close> is stored, the answer is 400 "Already favorited" and
  the collections are unchanged; when none is stored (and the generated identifier is new),
  exactly one favorite is appended, with the server's time as its \<^verbatim>\<open>date\<close>, and the
  answer is 201. Whatever the request, a pair stored at most once before is stored at most
  once after. After a successful request, the same body again is answered 400, at any later
  time and with any generated identifier, and the pair is still stored once.
\<close>

theorem favorite_once:
  assumes "handleValidationErrors L post_favorites_chains b = None"
    and "e = serialize (map_of b ''userEmail'')"
    and "r = serialize (map_of b ''reviewId'')"
  shows
    "(pair_count e r (favoritesCollection s) \<noteq> 0 \<longrightarrow>
        POST_favorites L now nid s b =
          (\<lparr>status = 400, payload = Message ''Already favorited''\<rparr>, s)) \<and>
     (pair_count e r (favoritesCollection s) = 0 \<and> unused (ObjectId nid) (favoritesCollection s) \<longrightarrow>
        POST_favorites L now nid s b =
          (\<lparr>status = 201, payload = InsertResult (ObjectId nid)\<rparr>,
           s\<lparr>favoritesCollection := favoritesCollection s @
              [[(''userEmail'', e), (''reviewId'', r), (''date'', Date now),
                (''_id'', ObjectId nid)]]\<rparr>)) \<and>
     (\<forall>e' r'. pair_count e' r' (favoritesCollection s) \<le> 1 \<longrightarrow>
        pair_count e' r' (favoritesCollection (snd (POST_favorites L now nid s b))) \<le> 1) \<and>
     (pair_count e r (favoritesCollection s) = 0 \<and> unused (ObjectId nid) (favoritesCollection s) \<longrightarrow>
        (\<forall>now' nid'.
           POST_favorites L now' nid' (snd (POST_favorites L now nid s b)) b =
             (\<lparr>status = 400, payload = Message ''Already favorited''\<rparr>,
              snd (POST_favorites L now nid s b)) \<and>
           pair_count e r (favoritesCollection (snd (POST_favorites L now nid s b))) = 1))"
proof (intro conjI impI allI)
  assume "pair_count e r (favoritesCollection s) \<noteq> 0"
  then show "POST_favorites L now nid s b =
          (\<lparr>status = 400, payload = Message ''Already favorited''\<rparr>, s)"
    using assms by (simp add: POST_favorites_exists)
next
  assume "pair_count e r (favoritesCollection s) = 0 \<and> unused (ObjectId nid) (favoritesCollection s)"
  then show "POST_favorites L now nid s b =
          (\<lparr>status = 201, payload = InsertResult (ObjectId nid)\<rparr>,
           s\<lparr>favoritesCollection := favoritesCollection s @
              [[(''userEmail'', e), (''reviewId'', r), (''date'', Date now),
                (''_id'', ObjectId nid)]]\<rparr>)"
    using assms by (simp add: POST_favorites_new)
next
  fix e' r'
  assume le: "pair_count e' r' (favoritesCollection s) \<le> 1"
  from POST_favorites_cases [of L now nid s b]
  show "pair_count e' r' (favoritesCollection (snd (POST_favorites L now nid s b))) \<le> 1"
  proof
    assume "snd (POST_favorites L now nid s b) = s"
    with le show ?thesis by simp
  next
    assume new: "handleValidationErrors L post_favorites_chains b = None \<and>
      pair_count (serialize (map_of b ''userEmail'')) (serialize (map_of b ''reviewId''))
        (favoritesCollection s) = 0 \<and>
      unused (ObjectId nid) (favoritesCollection s)"
    then have "pair_count e r (favoritesCollection s) = 0"
      using assms by simp
    with le new show ?thesis
      using assms(2,3) by (auto simp: POST_favorites_new pair_count_def is_pair_def)
  qed
next
  fix now' nid'
  assume new: "pair_count e r (favoritesCollection s) = 0 \<and>
    unused (ObjectId nid) (favoritesCollection s)"
  from valid_favorite [OF assms(1)] assms(2,3)
  have one: "pair_count e r (favoritesCollection (snd (POST_favorites L now nid s b))) = 1"
    using new assms(1) by (auto simp: POST_favorites_new pair_count_def is_pair_def)
  then show "pair_count e r (favoritesCollection (snd (POST_favorites L now nid s b))) = 1" .
  from one show "POST_favorites L now' nid' (snd (POST_favorites L now nid s b)) b =
             (\<lparr>status = 400, payload = Message ''Already favorited''\<rparr>,
              snd (POST_favorites L now nid s b))"
    using assms by (simp add: POST_favorites_exists)
qed

lemma favorite_body_valid:
  "handleValidationErrors sample_libs post_favorites_chains favorite_body = None"
  by (simp add: handleValidationErrors_def validationResult_def post_favorites_chains_def
      favorite_body_def sample_libs_def listed_email_def)

theorem favorite_once_witness:
  "POST_favorites sample_libs 2000 favorite_id no_data favorite_body =
     (\<lparr>status = 201, payload = InsertResult (ObjectId favorite_id)\<rparr>, one_favorite) \<and>
   POST_favorites sample_libs 3000 favorite_id2 one_favorite favorite_body =
     (\<lparr>status = 400, payload = Message ''Already favorited''\<rparr>, one_favorite) \<and>
   pair_count (Scalar (JStr ''a@b.com'')) (Scalar (JStr ''507f1f77bcf86cd799439011''))
     (favoritesCollection one_favorite) = 1"
proof -
  have e: "Scalar (JStr ''a@b.com'') = serialize (map_of favorite_body ''userEmail'')"
    and r: "Scalar (JStr ''507f1f77bcf86cd799439011'') = serialize (map_of favorite_body ''reviewId'')"
    by (simp_all add: favorite_body_def serialize_def)
  note t = favorite_once [OF favorite_body_valid e r, of no_data 2000 favorite_id]
  have new: "pair_count (Scalar (JStr ''a@b.com'')) (Scalar (JStr ''507f1f77bcf86cd799439011''))
      (favoritesCollection no_data) = 0 \<and> unused (ObjectId favorite_id) (favoritesCollection no_data)"
    by (simp add: no_data_def pair_count_def unused_def)
  from t new have first: "POST_favorites sample_libs 2000 favorite_id no_data favorite_body =
     (\<lparr>status = 201, payload = InsertResult (ObjectId favorite_id)\<rparr>, one_favorite)"
    by (simp add: no_data_def one_favorite_def taco_favorite_def)
  from t new have "\<forall>now' nid'.
      POST_favorites sample_libs now' nid'
        (snd (POST_favorites sample_libs 2000 favorite_id no_data favorite_body)) favorite_body =
        (\<lparr>status = 400, payload = Message ''Already favorited''\<rparr>,
         snd (POST_favorites sample_libs 2000 favorite_id no_data favorite_body)) \<and>
      pair_count (Scalar (JStr ''a@b.com'')) (Scalar (JStr ''507f1f77bcf86cd799439011''))
        (favoritesCollection (snd (POST_favorites sample_libs 2000 favorite_id no_data favorite_body))) = 1"
    by blast
  with first show ?thesis by simp
qed

subsection \<open>Creating a review\<close>

lemma map_of_bson_of: "map_of (bson_of b) k = map_option Scalar (map_of b k)"
  by (induction b) (auto simp: bson_of_def)

lemma insertOne_document_id:
  "insertOne nid (AList.update ''date'' (Date now) (bson_of b)) c =
     (if unused (document_id nid b) c
      then Inr (document_id nid b,
             c @ [AList.update ''_id'' (document_id nid b)
                    (AList.update ''date'' (Date now) (bson_of b))])
      else Inl DuplicateKey)"
  by (auto simp: insertOne_def document_id_def unused_def list_ex_iff Let_def update_conv'
      map_of_bson_of split: option.splits)

lemma POST_reviews_valid:
  assumes "handleValidationErrors L post_reviews_chains b = None"
  shows "POST_reviews L now nid s b =
     (if unused (document_id nid b) (reviewCollection s)
      then (\<lparr>status = 201, payload = InsertResult (document_id nid b)\<rparr>,
            s\<lparr>reviewCollection := reviewCollection s @
               [AList.update ''_id'' (document_id nid b)
                  (AList.update ''date'' (Date now) (bson_of b))]\<rparr>)
      else (\<lparr>status = 500, payload = Message ''Failed to add review''\<rparr>, s))"
  using assms by (simp add: POST_reviews_def insertOne_document_id)









subsection \<open>Updating a review\<close>

lemma field_is_id [simp]:
  "field_is ''_id'' (ObjectId i) d = (map_of d ''_id'' = Some (ObjectId i))"
  by (auto simp: field_is_def split: option.splits)








lemma taco_id_parses_lower: "ObjectId_of_string ''507f1f77bcf86cd799439011'' = Some taco_id"
  by (simp add: ObjectId_of_string_def is_hex_def lower_def taco_id_def)




subsection \<open>The type of a rating\<close>

lemma numeric_with_numeric_rating: "numeric_rating (with_numeric_rating L r)"
  by (simp add: numeric_rating_def with_numeric_rating_def update_conv')







lemma string_body_valid:
  "handleValidationErrors sample_libs post_reviews_chains string_body = None"
  by (simp add: handleValidationErrors_def validationResult_def post_reviews_chains_def
      string_body_def sample_libs_def listed_email_def is_digit_def digits_value_def
      digit_value_def)

lemma string_body_stored:
  "POST_reviews sample_libs 2000 taco_id no_data string_body =
     (\<lparr>status = 201, payload = InsertResult (ObjectId taco_id)\<rparr>, one_string_review)"
  by (simp add: POST_reviews_valid string_body_valid document_id_def unused_def no_data_def
      one_string_review_def string_taco_def)
    (simp add: string_body_def bson_of_def)



subsection \<open>Sorted reads\<close>

lemma mset_sort_desc: "mset (sort_desc f ds) = mset ds"
  by (simp add: sort_desc_def)

lemma descending_sort_desc: "descending f (sort_desc f ds)"
proof -
  have "sorted (map (\<lambda>d. bson_key (map_of d f)) (sort_key (\<lambda>d. bson_key (map_of d f)) ds))"
    by (rule sorted_sort_key)
  then show ?thesis
    by (simp add: descending_def sort_desc_def sorted_wrt_rev sorted_wrt_map)
qed

lemma finite_rating_key:
  "finite_rating d = Some q \<Longrightarrow> bson_key (map_of d ''rating'') = (2, Some q, [])"
  by (auto simp: finite_rating_def split: option.splits bson.splits json.splits jsnum.splits)

lemma finite_rating_kept:
  "finite_rating d = Some q \<Longrightarrow> finite_rating (with_numeric_rating L d) = Some q"
  by (auto simp: finite_rating_def with_numeric_rating_def update_conv'
      split: option.splits bson.splits json.splits jsnum.splits)

lemma descending_ratings:
  assumes "descending ''rating'' ys" and "\<forall>d \<in> set ys. finite_rating d \<noteq> None"
  shows "ratings_non_increasing (map (with_numeric_rating L) ys)"
proof -
  have "rating_ge (with_numeric_rating L x) (with_numeric_rating L y)"
    if "x \<in> set ys" "y \<in> set ys"
      "bson_key (map_of y ''rating'') \<le> bson_key (map_of x ''rating'')" for x y
  proof -
    from that(1,2) assms(2) have "finite_rating x \<noteq> None" "finite_rating y \<noteq> None"
      by blast+
    then obtain a b where ab: "finite_rating x = Some a" "finite_rating y = Some b"
      by blast
    with that(3) have "b \<le> a"
      by (auto simp: finite_rating_key)
    with ab show ?thesis
      by (simp add: rating_ge_def finite_rating_kept)
  qed
  with assms(1) show ?thesis
    unfolding ratings_non_increasing_def descending_def sorted_wrt_map
    by (rule sorted_wrt_mono_rel [rotated])
qed

text \<open>
  C3, as the code has it. \<^verbatim>\<open>GET /reviews/top\<close> answers 200 with a bare array of at most
  6 reviews, each rating converted to a number. The array is descending in the storage's
  comparison order of the stored ratings, and no review left out compares above a
  returned one. When every stored rating is a finite number, the returned ratings are
  non-increasing.
\<close>

theorem top_reviews:
  "\<exists>ys rest.
     GET_reviews_top L s = \<lparr>status = 200, payload = Array (map (with_numeric_rating L) ys)\<rparr> \<and>
     mset (ys @ rest) = mset (reviewCollection s) \<and>
     length ys = min 6 (length (reviewCollection s)) \<and>
     length (map (with_numeric_rating L) ys) \<le> 6 \<and>
     list_all numeric_rating (map (with_numeric_rating L) ys) \<and>
     descending ''rating'' ys \<and>
     (\<forall>y \<in> set ys. \<forall>x \<in> set rest.
        bson_key (map_of x ''rating'') \<le> bson_key (map_of y ''rating'')) \<and>
     ((\<forall>d \<in> set (reviewCollection s). finite_rating d \<noteq> None) \<longrightarrow>
        ratings_non_increasing (map (with_numeric_rating L) ys))"
proof -
  let ?zs = "sort_desc ''rating'' (reviewCollection s)"
  let ?ys = "take 6 ?zs" and ?rest = "drop 6 ?zs"
  have split: "?ys @ ?rest = ?zs" by simp
  have d: "descending ''rating'' (?ys @ ?rest)"
    unfolding split by (rule descending_sort_desc)
  have m: "mset (?ys @ ?rest) = mset (reviewCollection s)"
    unfolding split by (rule mset_sort_desc)
  then have "length ?zs = length (reviewCollection s)"
    unfolding split by (rule mset_eq_length)
  then have len: "length ?ys = min 6 (length (reviewCollection s))"
    by simp
  from d have dy: "descending ''rating'' ?ys"
    and above: "\<forall>y \<in> set ?ys. \<forall>x \<in> set ?rest.
        bson_key (map_of x ''rating'') \<le> bson_key (map_of y ''rating'')"
    unfolding descending_def sorted_wrt_append by blast+
  have num: "list_all numeric_rating (map (with_numeric_rating L) ?ys)"
    by (simp add: list_all_iff numeric_with_numeric_rating)
  have fin: "(\<forall>d \<in> set (reviewCollection s). finite_rating d \<noteq> None) \<longrightarrow>
        ratings_non_increasing (map (with_numeric_rating L) ?ys)"
  proof
    assume a: "\<forall>d \<in> set (reviewCollection s). finite_rating d \<noteq> None"
    have "set ?ys \<subseteq> set ?zs" by (rule set_take_subset)
    also have "set ?zs = set (reviewCollection s)"
      using mset_sort_desc [of "''rating''" "reviewCollection s"] by (rule mset_eq_setD)
    finally have "\<forall>d \<in> set ?ys. finite_rating d \<noteq> None"
      using a by blast
    with dy show "ratings_non_increasing (map (with_numeric_rating L) ?ys)"
      by (rule descending_ratings)
  qed
  have "GET_reviews_top L s = \<lparr>status = 200, payload = Array (map (with_numeric_rating L) ?ys)\<rparr>"
    by (simp add: GET_reviews_top_def)
  with m len num dy above fin show ?thesis
    by (intro exI [of _ ?ys] exI [of _ ?rest] conjI) simp_all
qed

lemma five_body_valid:
  "handleValidationErrors sample_libs post_reviews_chains five_body = None"
  by (simp add: handleValidationErrors_def validationResult_def post_reviews_chains_def
      five_body_def sample_libs_def listed_email_def)

lemma five_body_stored:
  "POST_reviews sample_libs 3000 pho_id one_string_review five_body =
     (\<lparr>status = 201, payload = InsertResult (ObjectId pho_id)\<rparr>, two_reviews)"
  by (simp add: POST_reviews_valid five_body_valid document_id_def unused_def
      one_string_review_def two_reviews_def pho_def)
    (simp add: five_body_def bson_of_def string_taco_def taco_id_def pho_id_def)

lemma sort_two_reviews: "sort_desc ''rating'' [string_taco, pho] = [string_taco, pho]"
  unfolding sort_desc_def string_taco_def pho_def taco_id_def pho_id_def by code_simp

lemma sort_numeric_reviews: "sort_desc ''rating'' [taco, pho] = [pho, taco]"
  unfolding sort_desc_def taco_def pho_def taco_id_def pho_id_def by code_simp

lemma top_two_reviews:
  "GET_reviews_top sample_libs two_reviews = \<lparr>status = 200, payload = Array [numeric_taco, pho]\<rparr>"
  by (simp add: GET_reviews_top_def two_reviews_def sort_two_reviews)
    (simp add: with_numeric_rating_def string_taco_def pho_def numeric_taco_def sample_libs_def
      integer_string_def is_digit_def digits_value_def digit_value_def)

lemma top_numeric_reviews:
  "GET_reviews_top sample_libs numeric_reviews = \<lparr>status = 200, payload = Array [pho, taco]\<rparr>"
  by (simp add: GET_reviews_top_def numeric_reviews_def sort_numeric_reviews)
    (simp add: with_numeric_rating_def taco_def pho_def)

theorem top_reviews_witness:
  "GET_reviews_top sample_libs numeric_reviews = \<lparr>status = 200, payload = Array [pho, taco]\<rparr> \<and>
   length [pho, taco] \<le> 6 \<and>
   finite_rating pho = Some 5 \<and> finite_rating taco = Some 4 \<and>
   ratings_non_increasing [pho, taco]"
proof -
  have fin: "\<forall>d \<in> set (reviewCollection numeric_reviews). finite_rating d \<noteq> None"
    by (simp add: numeric_reviews_def finite_rating_def taco_def pho_def)
  from top_reviews [of sample_libs numeric_reviews] obtain ys where
    ys: "GET_reviews_top sample_libs numeric_reviews =
           \<lparr>status = 200, payload = Array (map (with_numeric_rating sample_libs) ys)\<rparr>"
    and imp: "(\<forall>d \<in> set (reviewCollection numeric_reviews). finite_rating d \<noteq> None) \<longrightarrow>
        ratings_non_increasing (map (with_numeric_rating sample_libs) ys)"
    by (elim exE conjE)
  from ys have "map (with_numeric_rating sample_libs) ys = [pho, taco]"
    by (simp add: top_numeric_reviews)
  with mp [OF imp fin] have "ratings_non_increasing [pho, taco]"
    by simp
  then show ?thesis
    by (simp add: top_numeric_reviews) (simp add: finite_rating_def taco_def pho_def)
qed

text \<open>
  Two reviews created through \<^verbatim>\<open>POST /reviews\<close>, one with the rating \<^verbatim>\<open>"4"\<close> and one
  with the rating \<^verbatim>\<open>5\<close>: the storage orders the string above the number, and the
  answer lists the rating 4 before the rating 5.
\<close>

theorem top_reviews_counterexample:
  "POST_reviews sample_libs 2000 taco_id no_data string_body =
     (\<lparr>status = 201, payload = InsertResult (ObjectId taco_id)\<rparr>, one_string_review) \<and>
   POST_reviews sample_libs 3000 pho_id one_string_review five_body =
     (\<lparr>status = 201, payload = InsertResult (ObjectId pho_id)\<rparr>, two_reviews) \<and>
   GET_reviews_top sample_libs two_reviews =
     \<lparr>status = 200, payload = Array [numeric_taco, pho]\<rparr> \<and>
   finite_rating numeric_taco = Some 4 \<and>
   finite_rating pho = Some 5 \<and>
   \<not> ratings_non_increasing [numeric_taco, pho]"
  using string_body_stored five_body_stored top_two_reviews
  by (simp add: ratings_non_increasing_def rating_ge_def)
    (simp add: finite_rating_def numeric_taco_def pho_def)

subsection \<open>Listing reviews\<close>

lemma trim_Nil [simp]: "trim [] = []"
  by (simp add: trim_def)

lemma matches_append: "matches L (q @ q') d = (matches L q d \<and> matches L q' d)"
  by (simp add: matches_def)

lemma field_is_string [simp]:
  "field_is k (Scalar (JStr e)) d = (map_of d k = Some (Scalar (JStr e)))"
  by (auto simp: field_is_def split: option.splits)

lemma find_reviews_query:
  "find L (reviews_query ue se) c =
     (if search_compiles L se then Inr (filter (selected (engine L) ue se) c) else Inl BadRegex)"
proof -
  have c: "list_all (compiles L) (reviews_query ue se) = search_compiles L se"
    by (auto simp: reviews_query_def search_compiles_def split: option.splits)
  have "matches L (reviews_query ue se) d = selected (engine L) ue se d"
    if "search_compiles L se" for d
    using that
    by (auto simp: reviews_query_def search_compiles_def selected_def engine_def matches_def
        field_matches_def split: option.splits bson.splits json.splits)
  then have "search_compiles L se \<Longrightarrow>
      filter (matches L (reviews_query ue se)) c = filter (selected (engine L) ue se) c"
    by (simp cong: filter_cong)
  with c show ?thesis
    by (simp add: find_def)
qed

lemma dot_prefix_literal: "CHR ''.'' \<notin> set p \<Longrightarrow> dot_prefix p s = ci_prefix p s"
  by (induction p s rule: ci_prefix.induct) auto

lemma dot_search_literal: "CHR ''.'' \<notin> set p \<Longrightarrow> dot_search p s = ci_infix p s"
  by (induction s) (auto simp: dot_prefix_literal)

lemma literal_engine_sample: "literal_engine sample_libs"
proof -
  have "dot_regex p = Some (ci_infix p)" if "literal_text p" for p
  proof -
    from that have "CHR ''.'' \<notin> set p"
      by (auto simp: literal_text_def list_all_iff regex_meta_def)
    then have "dot_search p = ci_infix p"
      by (auto simp: dot_search_literal)
    with that show ?thesis
      by (auto simp: dot_regex_def literal_text_def list_all_iff)
  qed
  then show ?thesis
    by (simp add: literal_engine_def sample_libs_def)
qed

text \<open>
  C4, as the code has it. \<^verbatim>\<open>GET /reviews\<close> hands the search text to the storage as a
  case-insensitive regular expression. When the text is absent or blank, or compiles, the
  answer is 200 with \<^verbatim>\<open>{ reviews: [...] }\<close>: exactly the stored reviews that pass the
  \<^verbatim>\<open>userEmail\<close> filter (exact match, when given and not empty) and whose
  \<^verbatim>\<open>foodName\<close> the expression matches, descending in the storage's order of
  \<^verbatim>\<open>date\<close>, each rating converted to a number, and the empty list when none is
  selected. When the text does not compile, the answer is 500. For an engine that takes
  literal text as such, a search text without special characters selects by
  case-insensitive substring match.
\<close>

theorem reviews_listed:
  "(search_compiles L se \<longrightarrow>
      (\<exists>ys. GET_reviews L s ue se =
              \<lparr>status = 200, payload = Reviews (map (with_numeric_rating L) ys)\<rparr> \<and>
            mset ys = mset (filter (selected (engine L) ue se) (reviewCollection s)) \<and>
            descending ''date'' ys \<and>
            list_all numeric_rating (map (with_numeric_rating L) ys)) \<and>
      (filter (selected (engine L) ue se) (reviewCollection s) = [] \<longrightarrow>
         GET_reviews L s ue se = \<lparr>status = 200, payload = Reviews []\<rparr>)) \<and>
   (\<not> search_compiles L se \<longrightarrow>
      GET_reviews L s ue se = \<lparr>status = 500, payload = Message ''Failed to fetch reviews''\<rparr>) \<and>
   (literal_engine L \<and> literal_search se \<longrightarrow>
      search_compiles L se \<and> selected (engine L) ue se = selected ci_infix ue se)"
proof (intro conjI impI)
  let ?sel = "filter (selected (engine L) ue se) (reviewCollection s)"
  assume c: "search_compiles L se"
  then have get: "GET_reviews L s ue se =
      \<lparr>status = 200, payload = Reviews (map (with_numeric_rating L) (sort_desc ''date'' ?sel))\<rparr>"
    by (simp add: GET_reviews_def find_reviews_query)
  have "mset (sort_desc ''date'' ?sel) = mset ?sel"
    by (rule mset_sort_desc)
  moreover have "descending ''date'' (sort_desc ''date'' ?sel)"
    by (rule descending_sort_desc)
  moreover have "list_all numeric_rating (map (with_numeric_rating L) (sort_desc ''date'' ?sel))"
    by (simp add: list_all_iff numeric_with_numeric_rating)
  ultimately show "\<exists>ys. GET_reviews L s ue se =
              \<lparr>status = 200, payload = Reviews (map (with_numeric_rating L) ys)\<rparr> \<and>
            mset ys = mset ?sel \<and>
            descending ''date'' ys \<and>
            list_all numeric_rating (map (with_numeric_rating L) ys)"
    using get by (intro exI [of _ "sort_desc ''date'' ?sel"] conjI)
  assume "?sel = []"
  with get show "GET_reviews L s ue se = \<lparr>status = 200, payload = Reviews []\<rparr>"
    by (simp add: sort_desc_def)
next
  assume "\<not> search_compiles L se"
  then show "GET_reviews L s ue se =
      \<lparr>status = 500, payload = Message ''Failed to fetch reviews''\<rparr>"
    by (simp add: GET_reviews_def find_reviews_query)
next
  assume a: "literal_engine L \<and> literal_search se"
  then show "search_compiles L se"
    by (auto simp: literal_engine_def literal_search_def search_compiles_def split: option.splits)
  from a have "selected (engine L) ue se d = selected ci_infix ue se d" for d
    by (auto simp: literal_engine_def literal_search_def selected_def engine_def
        split: option.splits bson.splits json.splits)
  then show "selected (engine L) ue se = selected ci_infix ue se"
    by (rule ext)
qed

lemma with_numeric_rating_taco: "with_numeric_rating L taco = taco"
  by (simp add: with_numeric_rating_def taco_def)

theorem reviews_listed_witness:
  "GET_reviews sample_libs numeric_reviews (Some ''a@b.com'') (Some ''aC'') =
     \<lparr>status = 200, payload = Reviews [taco]\<rparr> \<and>
   GET_reviews sample_libs numeric_reviews None (Some ''piz'') =
     \<lparr>status = 200, payload = Reviews []\<rparr> \<and>
   GET_reviews sample_libs numeric_reviews None (Some ''('') =
     \<lparr>status = 500, payload = Message ''Failed to fetch reviews''\<rparr>"
proof -
  note t1 = reviews_listed [of sample_libs "Some ''aC''" numeric_reviews "Some ''a@b.com''"]
  note t2 = reviews_listed [of sample_libs "Some ''piz''" numeric_reviews None]
  note t3 = reviews_listed [of sample_libs "Some ''(''" numeric_reviews None]
  have lit: "literal_engine sample_libs \<and> literal_search (Some ''aC'')"
    "literal_engine sample_libs \<and> literal_search (Some ''piz'')"
    by (simp_all add: literal_engine_sample literal_search_def literal_text_def regex_meta_def)
  from t1 lit(1) have c1: "search_compiles sample_libs (Some ''aC'')"
    and s1: "selected (engine sample_libs) (Some ''a@b.com'') (Some ''aC'') =
      selected ci_infix (Some ''a@b.com'') (Some ''aC'')"
    by simp_all
  from t2 lit(2) have c2: "search_compiles sample_libs (Some ''piz'')"
    and s2: "selected (engine sample_libs) None (Some ''piz'') = selected ci_infix None (Some ''piz'')"
    by simp_all
  have f1: "filter (selected ci_infix (Some ''a@b.com'') (Some ''aC''))
      (reviewCollection numeric_reviews) = [taco]"
    by (simp add: numeric_reviews_def selected_def taco_def pho_def lower_def trim_def
        is_space_def)
  have f2: "filter (selected ci_infix None (Some ''piz'')) (reviewCollection numeric_reviews) = []"
    by (simp add: numeric_reviews_def selected_def taco_def pho_def lower_def trim_def
        is_space_def)
  from t1 c1 obtain ys where ys:
    "GET_reviews sample_libs numeric_reviews (Some ''a@b.com'') (Some ''aC'') =
       \<lparr>status = 200, payload = Reviews (map (with_numeric_rating sample_libs) ys)\<rparr>"
    "mset ys = mset (filter (selected (engine sample_libs) (Some ''a@b.com'') (Some ''aC''))
       (reviewCollection numeric_reviews))"
    by blast
  from ys(2) have "ys = [taco]"
    by (simp add: s1 f1)
  with ys(1) have first: "GET_reviews sample_libs numeric_reviews (Some ''a@b.com'') (Some ''aC'') =
     \<lparr>status = 200, payload = Reviews [taco]\<rparr>"
    by (simp add: with_numeric_rating_taco)
  from t2 c2 have second: "GET_reviews sample_libs numeric_reviews None (Some ''piz'') =
     \<lparr>status = 200, payload = Reviews []\<rparr>"
    by (simp add: s2 f2)
  have "\<not> search_compiles sample_libs (Some ''('')"
    by (simp add: search_compiles_def sample_libs_def dot_regex_def regex_meta_def trim_def
        is_space_def)
  with t3 have third: "GET_reviews sample_libs numeric_reviews None (Some ''('') =
     \<lparr>status = 500, payload = Message ''Failed to fetch reviews''\<rparr>"
    by blast
  from first second third show ?thesis by (intro conjI)
qed

text \<open>
  The search text \<^verbatim>\<open>.\<close> finds the review named Taco, whose name does not contain it;
  the search text \<^verbatim>\<open>(\<close>, which no name contains, is answered 500, not an empty list.
\<close>

theorem reviews_listed_counterexample:
  "reviewCollection one_review = [taco] \<and>
   map_of taco ''foodName'' = Some (Scalar (JStr ''Taco'')) \<and>
   \<not> ci_infix ''.'' ''Taco'' \<and>
   GET_reviews sample_libs one_review None (Some ''.'') =
     \<lparr>status = 200, payload = Reviews [taco]\<rparr> \<and>
   \<not> ci_infix ''('' ''Taco'' \<and>
   GET_reviews sample_libs one_review None (Some ''('') =
     \<lparr>status = 500, payload = Message ''Failed to fetch reviews''\<rparr>"
proof -
  have dot: "search_compiles sample_libs (Some ''.'')"
    and paren: "\<not> search_compiles sample_libs (Some ''('')"
    by (simp_all add: search_compiles_def sample_libs_def dot_regex_def regex_meta_def trim_def
        is_space_def)
  have "filter (selected (engine sample_libs) None (Some ''.'')) [taco] = [taco]"
    by (simp add: selected_def engine_def sample_libs_def dot_regex_def regex_meta_def taco_def
        trim_def is_space_def)
  with dot have "GET_reviews sample_libs one_review None (Some ''.'') =
     \<lparr>status = 200, payload = Reviews [taco]\<rparr>"
    by (simp add: GET_reviews_def find_reviews_query one_review_def sort_desc_def
        with_numeric_rating_taco)
  moreover from paren have "GET_reviews sample_libs one_review None (Some ''('') =
     \<lparr>status = 500, payload = Message ''Failed to fetch reviews''\<rparr>"
    by (simp add: GET_reviews_def find_reviews_query)
  moreover have "\<not> ci_infix ''.'' ''Taco''" "\<not> ci_infix ''('' ''Taco''"
    by (simp_all add: lower_def)
  ultimately show ?thesis
    by (simp add: one_review_def taco_def)
qed

subsection \<open>Listing favorites\<close>

lemma populate_all_cases:
  "populate_all L reviews favs =
     (if list_all reference_ok favs
      then Inr (map (\<lambda>f. (AList.delete ''review'' f, joined_review reviews f)) favs)
      else Inl BadObjectId)"
proof (induction favs)
  case Nil
  then show ?case by simp
next
  case (Cons f favs)
  show ?case
  proof (cases "new_ObjectId (map_of f ''reviewId'')")
    case (Inl e)
    then have "e = BadObjectId"
      by (cases "(map_of f ''reviewId'')" rule: new_ObjectId.cases)
        (auto split: option.splits)
    with Inl show ?thesis
      by (simp add: populate_def reference_ok_def)
  next
    case (Inr i)
    with Cons.IH show ?thesis
      by (cases i) (simp_all add: populate_def reference_ok_def joined_review_def findOne_def
          matches_id [abs_def])
  qed
qed

lemma find_favorites:
  "find L [Eq ''userEmail'' (Scalar (JStr email))] c = Inr (favorites_of email c)"
  by (simp add: find_def favorites_of_def matches_def cong: filter_cong)

text \<open>
  C6, as the code has it. When the ObjectId constructor accepts the \<^verbatim>\<open>reviewId\<close> of
  every favorite stored for the email, \<^verbatim>\<open>GET /favorites/:email\<close> answers 200 with one
  merged record per such favorite, in storage order: the favorite's fields and its
  review. A favorite whose \<^verbatim>\<open>reviewId\<close> is a well-formed identifier of no stored review
  (the review was deleted) is accepted and its review is null. When the constructor throws
  on the \<^verbatim>\<open>reviewId\<close> of one favorite of the email, the whole response is 500.
\<close>

theorem favorites_listed:
  "(list_all reference_ok (favorites_of email (favoritesCollection s)) \<longrightarrow>
      GET_favorites_email L s email =
        \<lparr>status = 200,
         payload = Populated
           (map (\<lambda>f. (AList.delete ''review'' f, joined_review (reviewCollection s) f))
              (favorites_of email (favoritesCollection s)))\<rparr>) \<and>
   (\<forall>f r i. map_of f ''reviewId'' = Some (Scalar (JStr r)) \<and> ObjectId_of_string r = Some i \<and>
        unused (ObjectId i) (reviewCollection s) \<longrightarrow>
        reference_ok f \<and> joined_review (reviewCollection s) f = None) \<and>
   (\<not> list_all reference_ok (favorites_of email (favoritesCollection s)) \<longrightarrow>
      GET_favorites_email L s email =
        \<lparr>status = 500, payload = Message ''Failed to fetch favorites''\<rparr>)"
proof (intro conjI allI impI)
  assume "list_all reference_ok (favorites_of email (favoritesCollection s))"
  then show "GET_favorites_email L s email =
        \<lparr>status = 200,
         payload = Populated
           (map (\<lambda>f. (AList.delete ''review'' f, joined_review (reviewCollection s) f))
              (favorites_of email (favoritesCollection s)))\<rparr>"
    by (simp add: GET_favorites_email_def find_favorites populate_all_cases)
next
  fix f r i
  assume a: "map_of f ''reviewId'' = Some (Scalar (JStr r)) \<and> ObjectId_of_string r = Some i \<and>
        unused (ObjectId i) (reviewCollection s)"
  then show "reference_ok f"
    by (simp add: reference_ok_def)
  from a show "joined_review (reviewCollection s) f = None"
    by (auto simp: joined_review_def unused_def find_None_iff)
next
  assume "\<not> list_all reference_ok (favorites_of email (favoritesCollection s))"
  then show "GET_favorites_email L s email =
        \<lparr>status = 500, payload = Message ''Failed to fetch favorites''\<rparr>"
    by (simp add: GET_favorites_email_def find_favorites populate_all_cases)
qed

lemma taco_favorite_reference:
  "new_ObjectId (map_of taco_favorite ''reviewId'') = Inr (Some taco_id)"
  by (simp add: taco_favorite_def taco_id_parses_lower)

lemma bad_favorite_reference:
  "new_ObjectId (map_of bad_favorite ''reviewId'') = Inl BadObjectId"
  by (simp add: bad_favorite_def ObjectId_of_string_def)

lemma sample_favorites_of:
  "favorites_of ''a@b.com'' [taco_favorite] = [taco_favorite]"
  "favorites_of ''a@b.com'' [taco_favorite, bad_favorite] = [taco_favorite, bad_favorite]"
  by (simp_all add: favorites_of_def taco_favorite_def bad_favorite_def)

lemma delete_review_taco_favorite: "AList.delete ''review'' taco_favorite = taco_favorite"
  by (simp add: taco_favorite_def)

lemma taco_deleted:
  "DELETE_reviews_id taco_favorited ''507f1f77bcf86cd799439011'' =
     (\<lparr>status = 200, payload = Message ''Review deleted''\<rparr>, one_favorite)"
  by (simp add: DELETE_reviews_id_def taco_id_parses_lower taco_favorited_def one_favorite_def
      taco_def)

theorem favorites_listed_witness:
  "GET_favorites_email sample_libs taco_favorited ''a@b.com'' =
     \<lparr>status = 200, payload = Populated [(taco_favorite, Some taco)]\<rparr> \<and>
   DELETE_reviews_id taco_favorited ''507f1f77bcf86cd799439011'' =
     (\<lparr>status = 200, payload = Message ''Review deleted''\<rparr>, one_favorite) \<and>
   GET_favorites_email sample_libs one_favorite ''a@b.com'' =
     \<lparr>status = 200, payload = Populated [(taco_favorite, None)]\<rparr> \<and>
   GET_favorites_email sample_libs bad_favorited ''a@b.com'' =
     \<lparr>status = 500, payload = Message ''Failed to fetch favorites''\<rparr>"
proof -
  note t1 = favorites_listed [of "''a@b.com''" taco_favorited sample_libs]
  note t2 = favorites_listed [of "''a@b.com''" one_favorite sample_libs]
  note t3 = favorites_listed [of "''a@b.com''" bad_favorited sample_libs]
  have ok: "list_all reference_ok (favorites_of ''a@b.com'' (favoritesCollection taco_favorited))"
    "list_all reference_ok (favorites_of ''a@b.com'' (favoritesCollection one_favorite))"
    by (simp_all add: taco_favorited_def one_favorite_def sample_favorites_of reference_ok_def
        taco_favorite_reference)
  have bad: "\<not> list_all reference_ok (favorites_of ''a@b.com'' (favoritesCollection bad_favorited))"
    by (simp add: bad_favorited_def sample_favorites_of reference_ok_def bad_favorite_reference)
  have present: "joined_review (reviewCollection taco_favorited) taco_favorite = Some taco"
    by (simp add: joined_review_def taco_favorite_reference taco_favorited_def)
      (simp add: taco_def)
  have orphan: "map_of taco_favorite ''reviewId'' = Some (Scalar (JStr ''507f1f77bcf86cd799439011'')) \<and>
      ObjectId_of_string ''507f1f77bcf86cd799439011'' = Some taco_id \<and>
      unused (ObjectId taco_id) (reviewCollection one_favorite)"
    using taco_id_parses_lower by (simp add: unused_def one_favorite_def) (simp add: taco_favorite_def)
  from t2 have "\<forall>f r i. map_of f ''reviewId'' = Some (Scalar (JStr r)) \<and>
      ObjectId_of_string r = Some i \<and> unused (ObjectId i) (reviewCollection one_favorite) \<longrightarrow>
      reference_ok f \<and> joined_review (reviewCollection one_favorite) f = None"
    by (elim conjE)
  with orphan have absent: "joined_review (reviewCollection one_favorite) taco_favorite = None"
    by blast
  from t1 ok(1) have "GET_favorites_email sample_libs taco_favorited ''a@b.com'' =
     \<lparr>status = 200, payload = Populated [(taco_favorite, Some taco)]\<rparr>"
    using present
    by (simp add: sample_favorites_of delete_review_taco_favorite)
      (simp add: taco_favorited_def sample_favorites_of delete_review_taco_favorite)
  moreover from t2 ok(2) have "GET_favorites_email sample_libs one_favorite ''a@b.com'' =
     \<lparr>status = 200, payload = Populated [(taco_favorite, None)]\<rparr>"
    using absent
    by (simp add: sample_favorites_of delete_review_taco_favorite)
      (simp add: one_favorite_def sample_favorites_of delete_review_taco_favorite)
  moreover from t3 bad have "GET_favorites_email sample_libs bad_favorited ''a@b.com'' =
     \<lparr>status = 500, payload = Message ''Failed to fetch favorites''\<rparr>"
    by blast
  ultimately show ?thesis
    using taco_deleted by (intro conjI)
qed

text \<open>
  A favorite with the \<^verbatim>\<open>reviewId\<close> \<^verbatim>\<open>"bad"\<close> passes the validation of
  \<^verbatim>\<open>POST /favorites\<close> and is stored. From then on the listing for that email is
  answered 500, although the other favorite of the email still joins its review.
\<close>

theorem favorites_listed_counterexample:
  "GET_favorites_email sample_libs taco_favorited ''a@b.com'' =
     \<lparr>status = 200, payload = Populated [(taco_favorite, Some taco)]\<rparr> \<and>
   POST_favorites sample_libs 3000 favorite_id2 taco_favorited bad_body =
     (\<lparr>status = 201, payload = InsertResult (ObjectId favorite_id2)\<rparr>, bad_favorited) \<and>
   favoritesCollection bad_favorited = [taco_favorite, bad_favorite] \<and>
   map_of bad_favorite ''reviewId'' = Some (Scalar (JStr ''bad'')) \<and>
   ObjectId_of_string ''bad'' = None \<and>
   GET_favorites_email sample_libs bad_favorited ''a@b.com'' =
     \<lparr>status = 500, payload = Message ''Failed to fetch favorites''\<rparr>"
proof -
  have valid: "handleValidationErrors sample_libs post_favorites_chains bad_body = None"
    by (simp add: handleValidationErrors_def validationResult_def post_favorites_chains_def
        bad_body_def sample_libs_def listed_email_def)
  have "pair_count (serialize (map_of bad_body ''userEmail'')) (serialize (map_of bad_body ''reviewId''))
      (favoritesCollection taco_favorited) = 0"
    "unused (ObjectId favorite_id2) (favoritesCollection taco_favorited)"
    by (simp_all add: pair_count_def is_pair_def unused_def taco_favorited_def taco_favorite_def
        bad_body_def serialize_def favorite_id_def favorite_id2_def)
  with valid have post: "POST_favorites sample_libs 3000 favorite_id2 taco_favorited bad_body =
     (\<lparr>status = 201, payload = InsertResult (ObjectId favorite_id2)\<rparr>, bad_favorited)"
    by (simp add: POST_favorites_new)
      (simp add: taco_favorited_def bad_favorited_def bad_favorite_def bad_body_def serialize_def)
  have good: "GET_favorites_email sample_libs taco_favorited ''a@b.com'' =
     \<lparr>status = 200, payload = Populated [(taco_favorite, Some taco)]\<rparr>"
    by (simp add: GET_favorites_email_def find_favorites populate_all_cases taco_favorited_def
        sample_favorites_of reference_ok_def joined_review_def taco_favorite_reference
        delete_review_taco_favorite)
      (simp add: taco_def)
  have "GET_favorites_email sample_libs bad_favorited ''a@b.com'' =
     \<lparr>status = 500, payload = Message ''Failed to fetch favorites''\<rparr>"
    by (simp add: GET_favorites_email_def find_favorites populate_all_cases bad_favorited_def
        sample_favorites_of reference_ok_def bad_favorite_reference)
  with post good show ?thesis
    by (simp add: bad_favorited_def bad_favorite_def ObjectId_of_string_def)
qed

end
